theory Spec2Isabelle
  imports Main
begin

section \<open>Common notions\<close>

text \<open>
  A JavaScript call either returns or throws. State that was written before the throw
  stays written, so every effectful function below returns the state together with how
  it completed.
\<close>

datatype completion = Normal | Threw

text \<open>
  A callback is a JavaScript function value. It is identified by \<open>cid\<close> (reference
  identity, what \<open>indexOf\<close> and \<open>Set.delete\<close> compare) and it either returns or throws
  when called (\<open>cthrows\<close>). Callbacks do not re-enter the managers.
\<close>

datatype callback = Callback (cid: nat) (cthrows: bool)

section \<open>Connection Manager: the \<open>useWebSocket\<close> hook\<close>

datatype readyState = CONNECTING | OPEN | CLOSING | CLOSED

text \<open>What goes over a socket: a serialised application message, the in-band
  authentication message \<open>{type: 'auth', token}\<close>, or the heartbeat reply
  \<open>{type: 'pong', time}\<close>.\<close>

datatype frame = Data string | Auth string | Pong

text \<open>The argument of \<open>sendMessage\<close>: a string, or an object given by its
  \<open>JSON.stringify\<close> text.\<close>

datatype payload = PString string | PObject string

text \<open>What \<open>JSON.parse(event.data)\<close> yields: \<open>null\<close>, or a value whose \<open>type\<close>
  property is a string or is absent.\<close>

datatype json = JNull | JValue "string option"

record ws_config =
  url :: "string option"
  reconnectInterval :: nat
  maxReconnectAttempts :: nat
  enableReconnect :: bool
  enableMessageHistory :: bool
  enableAuth :: bool
  authMethod :: string
  onOpen :: "callback option"
  onMessage :: "callback option"
  onError :: "callback option"
  onClose :: "callback option"
  ws_authenticated :: bool
  ws_getToken :: "string option"
  ctorThrows :: bool

datatype direction = Received | Sent

record ws =
  sockets :: "readyState list"
  wire :: "(nat \<times> frame) list"
  socketRef :: "nat option"
  reconnectTimeoutRef :: "nat option"
  pendingTimers :: "nat list"
  nextTimer :: nat
  reconnectAttempts :: nat
  messageQueue :: "string list"
  eventListeners :: "string \<rightharpoonup> callback list"
  isConnecting :: bool
  socket :: "nat option"
  connected :: bool
  connecting :: bool
  ws_error :: "string option"
  lastMessage :: "string option"
  messageHistory :: "(direction \<times> string) list"
  invoked :: "(nat \<times> string) list"
  hooksCalled :: "nat list"

definition ws_init :: ws where
  "ws_init = \<lparr> sockets = [], wire = [], socketRef = None, reconnectTimeoutRef = None,
      pendingTimers = [], nextTimer = 0, reconnectAttempts = 0, messageQueue = [],
      eventListeners = Map.empty, isConnecting = False, socket = None, connected = False,
      connecting = False, ws_error = None, lastMessage = None, messageHistory = [],
      invoked = [], hooksCalled = [] \<rparr>"

definition readyStateOf :: "ws \<Rightarrow> nat \<Rightarrow> readyState option" where
  "readyStateOf s i = (if i < length (sockets s) then Some (sockets s ! i) else None)"

text \<open>\<open>socketRef.current?.readyState === WebSocket.OPEN\<close>\<close>

definition refOpen :: "ws \<Rightarrow> bool" where
  "refOpen s = (case socketRef s of None \<Rightarrow> False | Some i \<Rightarrow> readyStateOf s i = Some OPEN)"

text \<open>\<open>WebSocket.prototype.send\<close>: transmits when open, throws InvalidStateError while
  connecting, and drops the data once closing or closed.\<close>

definition socket_send :: "nat \<Rightarrow> frame \<Rightarrow> ws \<Rightarrow> completion \<times> ws" where
  "socket_send i f s =
     (case readyStateOf s i of
        Some OPEN \<Rightarrow> (Normal, s\<lparr>wire := wire s @ [(i, f)]\<rparr>)
      | Some CONNECTING \<Rightarrow> (Threw, s)
      | _ \<Rightarrow> (Normal, s))"

text \<open>\<open>WebSocket.prototype.close\<close>: a socket that is not yet closing or closed starts
  closing.\<close>

definition socket_close :: "nat \<Rightarrow> ws \<Rightarrow> ws" where
  "socket_close i s =
     (case readyStateOf s i of
        Some CONNECTING \<Rightarrow> s\<lparr>sockets := (sockets s)[i := CLOSING]\<rparr>
      | Some OPEN \<Rightarrow> s\<lparr>sockets := (sockets s)[i := CLOSING]\<rparr>
      | _ \<Rightarrow> s)"

text \<open>\<open>setTimeout\<close> and \<open>clearTimeout\<close> for the reconnect timer.\<close>

definition clearTimeout :: "nat \<Rightarrow> ws \<Rightarrow> ws" where
  "clearTimeout t s = s\<lparr>pendingTimers := removeAll t (pendingTimers s)\<rparr>"

definition setTimeout :: "ws \<Rightarrow> nat \<times> ws" where
  "setTimeout s = (nextTimer s,
     s\<lparr>pendingTimers := pendingTimers s @ [nextTimer s], nextTimer := Suc (nextTimer s)\<rparr>)"

text \<open>Calling one of the optional \<open>config.on...\<close> hooks.\<close>

definition callHook :: "callback option \<Rightarrow> ws \<Rightarrow> completion \<times> ws" where
  "callHook h s =
     (case h of
        None \<Rightarrow> (Normal, s)
      | Some c \<Rightarrow> (if cthrows c then Threw else Normal, s\<lparr>hooksCalled := hooksCalled s @ [cid c]\<rparr>))"

text \<open>\<open>token.startsWith('Bearer ') ? token.substring(7) : token\<close>\<close>

definition cleanToken :: "string \<Rightarrow> string" where
  "cleanToken token = (if take 7 token = ''Bearer '' then drop 7 token else token)"

text \<open>\<open>addEventListener\<close> and \<open>removeEventListener\<close> (the function that
  \<open>addEventListener\<close> returns has the body of \<open>removeEventListener\<close>).\<close>

definition addEventListener :: "string \<Rightarrow> callback \<Rightarrow> ws \<Rightarrow> ws" where
  "addEventListener eventType listener s =
     (let m = (if eventListeners s eventType = None
               then (eventListeners s)(eventType \<mapsto> []) else eventListeners s)
      in s\<lparr>eventListeners := m(eventType \<mapsto> the (m eventType) @ [listener])\<rparr>)"

definition removeEventListener :: "string \<Rightarrow> callback \<Rightarrow> ws \<Rightarrow> ws" where
  "removeEventListener eventType listener s =
     (case eventListeners s eventType of
        None \<Rightarrow> s
      | Some listeners \<Rightarrow>
          (let listeners' = remove1 listener listeners
           in if listeners' = []
              then s\<lparr>eventListeners := (eventListeners s)(eventType := None)\<rparr>
              else s\<lparr>eventListeners := (eventListeners s)(eventType \<mapsto> listeners')\<rparr>))"

text \<open>The helper \<open>send\<close>: transmits on the current socket when it is open, and does
  nothing otherwise.\<close>

definition send :: "frame \<Rightarrow> ws \<Rightarrow> ws" where
  "send msg s =
     (case socketRef s of
        None \<Rightarrow> s
      | Some i \<Rightarrow> (if readyStateOf s i = Some OPEN then snd (socket_send i msg s) else s))"

text \<open>\<open>connect\<close>. The function is \<open>async\<close> but awaits nothing, so it runs to its end
  when called. A throwing \<open>WebSocket\<close> constructor is caught. A socket is known by its
  index in \<open>sockets\<close>; the address it is opened with (the URL, with the token appended in
  the \<open>url\<close> authentication mode) plays no part in what follows and is left out.\<close>

definition connect :: "ws_config \<Rightarrow> ws \<Rightarrow> ws" where
  "connect cfg s =
     (if refOpen s \<or> isConnecting s \<or> connecting s then s
      else if url cfg = None \<or> url cfg = Some [] then s
      else if enableAuth cfg \<and> \<not> ws_authenticated cfg then s
      else
        (let s1 = s\<lparr>isConnecting := True, connecting := True, ws_error := None\<rparr>
         in if ctorThrows cfg
            then s1\<lparr>ws_error := Some ''Failed to connect'', connecting := False,
                    isConnecting := False\<rparr>
            else s1\<lparr>sockets := sockets s1 @ [CONNECTING],
                    socketRef := Some (length (sockets s1))\<rparr>))"

text \<open>The loop of \<open>onopen\<close> that sends the queued messages:
  \<open>while (queue.length > 0) { m = queue.shift(); newSocket.send(m) }\<close>.\<close>

fun flushQueue :: "nat \<Rightarrow> string list \<Rightarrow> ws \<Rightarrow> completion \<times> ws" where
  "flushQueue i [] s = (Normal, s\<lparr>messageQueue := []\<rparr>)"
| "flushQueue i (q # qs) s =
     (case socket_send i (Data q) (s\<lparr>messageQueue := qs\<rparr>) of
        (Threw, s') \<Rightarrow> (Threw, s')
      | (Normal, s') \<Rightarrow> flushQueue i qs s')"

definition onopen :: "ws_config \<Rightarrow> nat \<Rightarrow> ws \<Rightarrow> completion \<times> ws" where
  "onopen cfg i s =
     (let s1 = s\<lparr>socket := Some i, connected := True, connecting := False,
                 isConnecting := False, ws_error := None, reconnectAttempts := 0\<rparr>
      in case flushQueue i (messageQueue s1) s1 of
           (Threw, s2) \<Rightarrow> (Threw, s2)
         | (Normal, s2) \<Rightarrow>
             (case (if enableAuth cfg \<and> ws_authenticated cfg \<and> authMethod cfg = ''message''
                    then (case ws_getToken cfg of
                            None \<Rightarrow> (Normal, s2)
                          | Some token \<Rightarrow>
                              (if token = [] then (Normal, s2)
                               else socket_send i (Auth (cleanToken token)) s2))
                    else (Normal, s2)) of
                (Threw, s3) \<Rightarrow> (Threw, s3)
              | (Normal, s3) \<Rightarrow> callHook (onOpen cfg) s3))"

text \<open>\<open>listeners.forEach((handler) => handler(parsed))\<close>: a throwing handler ends the
  iteration, since nothing catches.\<close>

fun forEach_handlers :: "callback list \<Rightarrow> string \<Rightarrow> ws \<Rightarrow> completion \<times> ws" where
  "forEach_handlers [] t s = (Normal, s)"
| "forEach_handlers (h # hs) t s =
     (let s' = s\<lparr>invoked := invoked s @ [(cid h, t)]\<rparr>
      in if cthrows h then (Threw, s') else forEach_handlers hs t s')"

text \<open>\<open>onmessage\<close>. The event carries \<open>event.data\<close> and what \<open>JSON.parse\<close> makes of it
  (\<open>None\<close> when it throws). Reading \<open>.type\<close> of \<open>null\<close> throws a TypeError.\<close>

definition onmessage :: "ws_config \<Rightarrow> string \<Rightarrow> json option \<Rightarrow> ws \<Rightarrow> completion \<times> ws" where
  "onmessage cfg data parse s =
     (let s1 = s\<lparr>lastMessage := Some data,
                 messageHistory := (if enableMessageHistory cfg
                                    then messageHistory s @ [(Received, data)]
                                    else messageHistory s)\<rparr>
      in case callHook (onMessage cfg) s1 of
           (Threw, s2) \<Rightarrow> (Threw, s2)
         | (Normal, s2) \<Rightarrow>
             (case (case parse of None \<Rightarrow> JValue (Some ''raw'') | Some p \<Rightarrow> p) of
                JNull \<Rightarrow> (Threw, s2)
              | JValue ty \<Rightarrow>
                  (let s3 = (if ty = Some ''ping'' then send Pong s2 else s2)
                   in case ty of
                        None \<Rightarrow> (Normal, s3)
                      | Some t \<Rightarrow>
                          (case eventListeners s3 t of
                             None \<Rightarrow> (Normal, s3)
                           | Some listeners \<Rightarrow> forEach_handlers listeners t s3))))"

definition onerror :: "ws_config \<Rightarrow> ws \<Rightarrow> completion \<times> ws" where
  "onerror cfg s =
     callHook (onError cfg)
       (s\<lparr>ws_error := Some ''WebSocket connection error'', connecting := False,
          isConnecting := False\<rparr>)"

definition onclose :: "ws_config \<Rightarrow> bool \<Rightarrow> ws \<Rightarrow> completion \<times> ws" where
  "onclose cfg wasClean s =
     (let s1 = s\<lparr>socket := None, connected := False, connecting := False,
                 isConnecting := False\<rparr>
      in case callHook (onClose cfg) s1 of
           (Threw, s2) \<Rightarrow> (Threw, s2)
         | (Normal, s2) \<Rightarrow>
             (let s3 = (case reconnectTimeoutRef s2 of
                          None \<Rightarrow> s2
                        | Some t \<Rightarrow> (clearTimeout t s2)\<lparr>reconnectTimeoutRef := None\<rparr>)
              in if enableReconnect cfg \<and> reconnectAttempts s3 < maxReconnectAttempts cfg
                    \<and> \<not> wasClean
                 then (let s4 = s3\<lparr>reconnectAttempts := reconnectAttempts s3 + 1\<rparr>;
                           (t, s5) = setTimeout s4
                       in (Normal, s5\<lparr>reconnectTimeoutRef := Some t\<rparr>))
                 else if reconnectAttempts s3 \<ge> maxReconnectAttempts cfg
                 then (Normal, s3\<lparr>ws_error := Some ''WebSocket reconnect failed, reached max attempts''\<rparr>)
                 else (Normal, s3)))"

definition disconnect :: "ws \<Rightarrow> ws" where
  "disconnect s =
     (let s1 = (case reconnectTimeoutRef s of
                  None \<Rightarrow> s
                | Some t \<Rightarrow> (clearTimeout t s)\<lparr>reconnectTimeoutRef := None\<rparr>);
          s2 = (case socketRef s1 of
                  None \<Rightarrow> s1
                | Some i \<Rightarrow> (socket_close i s1)\<lparr>socketRef := None\<rparr>)
      in s2\<lparr>socket := None, connected := False, connecting := False, isConnecting := False,
            reconnectAttempts := 0, messageQueue := []\<rparr>)"

definition messageData :: "payload \<Rightarrow> string" where
  "messageData message = (case message of PString m \<Rightarrow> m | PObject j \<Rightarrow> j)"

definition sendMessage :: "ws_config \<Rightarrow> payload \<Rightarrow> ws \<Rightarrow> completion \<times> ws" where
  "sendMessage cfg message s =
     (if refOpen s
      then (case socket_send (the (socketRef s)) (Data (messageData message)) s of
              (Threw, s1) \<Rightarrow> (Threw, s1)
            | (Normal, s1) \<Rightarrow>
                (Normal, (if enableMessageHistory cfg
                          then s1\<lparr>messageHistory := messageHistory s1 @ [(Sent, messageData message)]\<rparr>
                          else s1)))
      else (let s1 = s\<lparr>messageQueue := messageQueue s @ [messageData message]\<rparr>
            in (Normal, if \<not> connecting s1 \<and> \<not> connected s1 then connect cfg s1 else s1)))"

text \<open>
  What happens to a Connection, one event at a time. The browser sets a socket's
  \<open>readyState\<close> before it fires \<open>open\<close> or \<open>close\<close> on it; an exception that leaves
  an event handler is reported and dropped by the event loop.
\<close>

datatype event =
    CallConnect
  | CallDisconnect
  | CallSendMessage payload
  | CallAddEventListener string callback
  | CallRemoveEventListener string callback
  | SocketOpen nat
  | SocketMessage nat string "json option"
  | SocketError nat
  | SocketClose nat bool
  | TimerFires nat

fun step :: "ws_config \<Rightarrow> ws \<Rightarrow> event \<Rightarrow> ws" where
  "step cfg s CallConnect = connect cfg s"
| "step cfg s CallDisconnect = disconnect s"
| "step cfg s (CallSendMessage m) = snd (sendMessage cfg m s)"
| "step cfg s (CallAddEventListener t h) = addEventListener t h s"
| "step cfg s (CallRemoveEventListener t h) = removeEventListener t h s"
| "step cfg s (SocketOpen i) =
     (if readyStateOf s i = Some CONNECTING
      then snd (onopen cfg i (s\<lparr>sockets := (sockets s)[i := OPEN]\<rparr>)) else s)"
| "step cfg s (SocketMessage i d p) =
     (if readyStateOf s i = Some OPEN \<or> readyStateOf s i = Some CLOSING
      then snd (onmessage cfg d p s) else s)"
| "step cfg s (SocketError i) =
     (if i < length (sockets s) then snd (onerror cfg s) else s)"
| "step cfg s (SocketClose i wasClean) =
     (if i < length (sockets s) \<and> readyStateOf s i \<noteq> Some CLOSED
      then snd (onclose cfg wasClean (s\<lparr>sockets := (sockets s)[i := CLOSED]\<rparr>)) else s)"
| "step cfg s (TimerFires t) =
     (if t \<in> set (pendingTimers s)
      then connect cfg (s\<lparr>pendingTimers := removeAll t (pendingTimers s)\<rparr>) else s)"

definition run :: "ws_config \<Rightarrow> ws \<Rightarrow> event list \<Rightarrow> ws" where
  "run cfg s evs = foldl (step cfg) s evs"

subsection \<open>Notions used to state the properties\<close>

text \<open>The in-band authentication message that \<open>onopen\<close> sends on socket \<open>i\<close>, if any.\<close>

definition authFrames :: "ws_config \<Rightarrow> nat \<Rightarrow> (nat \<times> frame) list" where
  "authFrames cfg i =
     (if enableAuth cfg \<and> ws_authenticated cfg \<and> authMethod cfg = ''message''
      then (case ws_getToken cfg of
              None \<Rightarrow> []
            | Some token \<Rightarrow> if token = [] then [] else [(i, Auth (cleanToken token))])
      else [])"

text \<open>The handlers registered under a type, in registration order.\<close>

definition listenersOf :: "ws \<Rightarrow> string \<Rightarrow> callback list" where
  "listenersOf s t = (case eventListeners s t of None \<Rightarrow> [] | Some hs \<Rightarrow> hs)"

text \<open>The handlers of a list up to and including the first one that throws.\<close>

definition uptoThrow :: "callback list \<Rightarrow> callback list" where
  "uptoThrow hs = takeWhile (\<lambda>h. \<not> cthrows h) hs @ take 1 (dropWhile (\<lambda>h. \<not> cthrows h) hs)"

text \<open>A configuration with the default interval, at most two reconnect attempts, and
  \<open>onMessage\<close> and \<open>onClose\<close> hooks that return normally; and a run in which the
  transport fails twice before it ever opens.\<close>

definition example_config :: ws_config where
  "example_config = \<lparr> url = Some ''ws://host/ws/'', reconnectInterval = 3000,
     maxReconnectAttempts = 2, enableReconnect = True, enableMessageHistory = True,
     enableAuth = True, authMethod = ''url'', onOpen = None,
     onMessage = Some (Callback 8 False), onError = None, onClose = Some (Callback 9 False),
     ws_authenticated = True, ws_getToken = Some ''tok'', ctorThrows = False \<rparr>"

definition flapping :: "event list" where
  "flapping = [CallConnect, SocketClose 0 False, TimerFires 0, SocketClose 1 False, TimerFires 1]"

section \<open>Session Manager: the \<open>useKeycloak\<close> hook\<close>

datatype initState = idle | initializing | initialized | failed

text \<open>The objects passed to \<open>notifyStateChange\<close>, by their \<open>type\<close> field.\<close>

datatype notification =
    RESET
  | LOADING
  | INITIALIZED nat bool
  | ERROR string
  | TOKEN_UPDATED "string option" "string option"

text \<open>The fields of a Keycloak object that the hook reads. The object is created by
  \<open>new Keycloak\<close> and filled by the library's \<open>init\<close> and \<open>updateToken\<close>.\<close>

record kc_instance =
  kc_authenticated :: bool
  kc_token :: "string option"
  kc_refreshToken :: "string option"
  realmAccess :: "string list option"
  resourceAccess :: "string list option"

definition new_Keycloak :: kc_instance where
  "new_Keycloak = \<lparr> kc_authenticated = False, kc_token = None, kc_refreshToken = None,
     realmAccess = None, resourceAccess = None \<rparr>"

text \<open>The state of one \<open>useKeycloak\<close> hook instance: its React state and its two refs.\<close>

record hook =
  keycloak :: "nat option"
  authenticated :: bool
  loading :: bool
  error :: "string option"
  userInfo :: "(string \<times> string list \<times> bool) option"
  token :: "string option"
  refreshToken :: "string option"
  updateTokenTimeoutRef :: "nat option"
  isMountedRef :: bool

text \<open>What an \<open>initKeycloak\<close> call resolves to: the Keycloak object, the object
  \<open>{ keycloakInstance, authenticated }\<close> that the shared promise carries, or \<open>null\<close>.\<close>

datatype init_value = VInstance nat | VWrapper nat bool | VNull

datatype init_result = Resolved init_value | Rejected string

text \<open>An \<open>initKeycloak\<close> call suspended on the shared promise: either its own promise has
  adopted the shared one (\<open>return keycloakInitPromise\<close>), or it awaits it and goes on
  (\<open>await keycloakInitPromise\<close>) for the hook given.\<close>

datatype waiter = Adopt | Continue nat

datatype refresh_outcome = RefreshFailed | NotRefreshed | Refreshed string string

text \<open>
  The module's globals (\<open>keycloakSingleton\<close>, \<open>keycloakInitPromise\<close>,
  \<open>initializationState\<close>, \<open>globalError\<close>, \<open>stateSubscribers\<close>), the hook instances, and
  the world around them: the Keycloak objects, the init promises (each with the Keycloak
  object it initialises and its state, \<open>None\<close> while pending),
  the calls made to the identity provider, the pending timeouts
  (id, hook, Keycloak object, delay in ms), and the callbacks delivered.
  A subscriber is the \<open>handleStateChange\<close> of the hook whose index is its \<open>cid\<close>.
\<close>

record session =
  keycloakSingleton :: "nat option"
  keycloakInitPromise :: "nat option"
  initializationState :: initState
  globalError :: "string option"
  stateSubscribers :: "callback list"
  hooks :: "hook list"
  instances :: "kc_instance list"
  promises :: "(nat \<times> (string + bool) option) list"
  initCalls :: "nat list"
  updateTokenCalls :: "(nat \<times> nat) list"
  logoutCalls :: "nat list"
  timeouts :: "(nat \<times> nat \<times> nat \<times> nat) list"
  nextTimeout :: nat
  delivered :: "(nat \<times> notification) list"
  waiting :: "(nat \<times> nat \<times> waiter) list"
  profileWaiting :: "(nat \<times> nat \<times> nat) list"
  results :: "(nat \<times> init_result) list"

definition session_init :: session where
  "session_init = \<lparr> keycloakSingleton = None, keycloakInitPromise = None,
     initializationState = idle, globalError = None, stateSubscribers = [], hooks = [],
     instances = [], promises = [], initCalls = [], updateTokenCalls = [], logoutCalls = [],
     timeouts = [], nextTimeout = 0, delivered = [], waiting = [], profileWaiting = [],
     results = [] \<rparr>"

definition updHook :: "nat \<Rightarrow> (hook \<Rightarrow> hook) \<Rightarrow> session \<Rightarrow> session" where
  "updHook h f w = (if h < length (hooks w) then w\<lparr>hooks := (hooks w)[h := f (hooks w ! h)]\<rparr> else w)"

definition mounted :: "session \<Rightarrow> nat \<Rightarrow> bool" where
  "mounted w h = (h < length (hooks w) \<and> isMountedRef (hooks w ! h))"

definition instanceOf :: "session \<Rightarrow> nat option \<Rightarrow> kc_instance option" where
  "instanceOf w k = (case k of None \<Rightarrow> None
     | Some i \<Rightarrow> if i < length (instances w) then Some (instances w ! i) else None)"

text \<open>\<open>handleStateChange\<close>, the subscriber of each hook.\<close>

definition handleStateChange :: "notification \<Rightarrow> hook \<Rightarrow> hook" where
  "handleStateChange newState hk =
     (if \<not> isMountedRef hk then hk
      else case newState of
        RESET \<Rightarrow> hk\<lparr>keycloak := None, authenticated := False, loading := False, error := None,
                     userInfo := None, token := None, refreshToken := None\<rparr>
      | INITIALIZED k a \<Rightarrow> hk\<lparr>keycloak := Some k, authenticated := a, loading := False,
                               error := None\<rparr>
      | ERROR e \<Rightarrow> hk\<lparr>error := Some e, loading := False\<rparr>
      | TOKEN_UPDATED t r \<Rightarrow> hk\<lparr>token := t, refreshToken := r\<rparr>
      | LOADING \<Rightarrow> hk)"

definition callSubscriber :: "callback \<Rightarrow> notification \<Rightarrow> session \<Rightarrow> completion \<times> session" where
  "callSubscriber subscriber newState w =
     (let w1 = w\<lparr>delivered := delivered w @ [(cid subscriber, newState)]\<rparr>
      in if cthrows subscriber then (Threw, w1)
         else (Normal, updHook (cid subscriber) (handleStateChange newState) w1))"

text \<open>\<open>notifyStateChange\<close>: \<open>forEach\<close> over the subscribers, each call in its own
  \<open>try\<close>/\<open>catch\<close>: a throw is logged and the iteration goes on.\<close>

fun forEach_subscribers :: "callback list \<Rightarrow> notification \<Rightarrow> session \<Rightarrow> session" where
  "forEach_subscribers [] newState w = w"
| "forEach_subscribers (subscriber # rest) newState w =
     (case callSubscriber subscriber newState w of
        (Normal, w') \<Rightarrow> forEach_subscribers rest newState w'
      | (Threw, w') \<Rightarrow> forEach_subscribers rest newState w')"

definition notifyStateChange :: "notification \<Rightarrow> session \<Rightarrow> session" where
  "notifyStateChange newState w = forEach_subscribers (stateSubscribers w) newState w"

definition resetGlobalState :: "session \<Rightarrow> session" where
  "resetGlobalState w =
     notifyStateChange RESET
       (w\<lparr>keycloakSingleton := None, keycloakInitPromise := None,
          initializationState := idle, globalError := None\<rparr>)"

text \<open>Role resolution. \<open>client\<close> roles are those of \<open>resourceAccess[clientId]\<close>.\<close>

definition getClientRoles :: "kc_instance option \<Rightarrow> string list" where
  "getClientRoles keycloakInstance =
     (case keycloakInstance of None \<Rightarrow> []
      | Some k \<Rightarrow> if \<not> kc_authenticated k then []
                  else (case resourceAccess k of None \<Rightarrow> [] | Some roles \<Rightarrow> roles))"

definition getUserRoles :: "kc_instance option \<Rightarrow> string list" where
  "getUserRoles keycloakInstance =
     (case keycloakInstance of None \<Rightarrow> []
      | Some k \<Rightarrow> if \<not> kc_authenticated k then []
                  else (case realmAccess k of None \<Rightarrow> [] | Some roles \<Rightarrow> roles)
                       @ getClientRoles keycloakInstance)"

definition hasSuperRole :: "string \<Rightarrow> kc_instance option \<Rightarrow> bool" where
  "hasSuperRole SUPER_ROLE keycloakInstance =
     (case keycloakInstance of None \<Rightarrow> False
      | Some k \<Rightarrow> if \<not> kc_authenticated k then False
                  else SUPER_ROLE \<in> set (getUserRoles keycloakInstance))"

text \<open>\<open>hasRole\<close> of a hook, given its state; an empty \<open>requiredRole\<close> is falsy.\<close>

definition hasRole :: "string \<Rightarrow> session \<Rightarrow> hook \<Rightarrow> string \<Rightarrow> bool" where
  "hasRole SUPER_ROLE w hk requiredRole =
     (if \<not> authenticated hk \<or> requiredRole = [] then False
      else if hasSuperRole SUPER_ROLE (instanceOf w (keycloak hk)) then True
      else requiredRole \<in> set (getUserRoles (instanceOf w (keycloak hk))))"

text \<open>Timeouts of the refresh scheduler.\<close>

definition kc_clearTimeout :: "nat \<Rightarrow> session \<Rightarrow> session" where
  "kc_clearTimeout t w = w\<lparr>timeouts := filter (\<lambda>e. fst e \<noteq> t) (timeouts w)\<rparr>"

definition kc_setTimeout :: "nat \<Rightarrow> nat \<Rightarrow> nat \<Rightarrow> session \<Rightarrow> nat \<times> session" where
  "kc_setTimeout h k delay w = (nextTimeout w,
     w\<lparr>timeouts := timeouts w @ [(nextTimeout w, h, k, delay)], nextTimeout := Suc (nextTimeout w)\<rparr>)"

definition clearRefreshTimer :: "nat \<Rightarrow> session \<Rightarrow> session" where
  "clearRefreshTimer h w =
     (if h < length (hooks w)
      then (case updateTokenTimeoutRef (hooks w ! h) of
              None \<Rightarrow> w
            | Some t \<Rightarrow> updHook h (\<lambda>hk. hk\<lparr>updateTokenTimeoutRef := None\<rparr>) (kc_clearTimeout t w))
      else w)"

text \<open>The closure \<open>updateToken\<close> inside \<open>setupTokenRefresh\<close>, up to its
  \<open>await keycloakInstance.updateToken(30)\<close>, and from there on once the call settles.\<close>

definition updateToken_start :: "nat \<Rightarrow> nat \<Rightarrow> session \<Rightarrow> session" where
  "updateToken_start h k w =
     (if \<not> mounted w h then w else w\<lparr>updateTokenCalls := updateTokenCalls w @ [(k, 30)]\<rparr>)"

definition storeTokens :: "nat \<Rightarrow> string \<Rightarrow> string \<Rightarrow> session \<Rightarrow> session" where
  "storeTokens k t r w =
     (if k < length (instances w)
      then w\<lparr>instances := (instances w)[k := (instances w ! k)\<lparr>kc_token := Some t, kc_refreshToken := Some r\<rparr>]\<rparr>
      else w)"

definition updateToken_settled :: "nat \<Rightarrow> nat \<Rightarrow> refresh_outcome \<Rightarrow> session \<Rightarrow> session" where
  "updateToken_settled h k outcome w =
     (case outcome of
        RefreshFailed \<Rightarrow>
          (if mounted w h
           then updHook h (\<lambda>hk. hk\<lparr>error := Some ''Authentication session expired. Please login again.''\<rparr>) w
           else w)
      | NotRefreshed \<Rightarrow>
          (if mounted w h
           then (let (t, w1) = kc_setTimeout h k (5 * 60 * 1000) w
                 in updHook h (\<lambda>hk. hk\<lparr>updateTokenTimeoutRef := Some t\<rparr>) w1)
           else w)
      | Refreshed newToken newRefreshToken \<Rightarrow>
          (let w0 = storeTokens k newToken newRefreshToken w;
               w1 = (if mounted w0 h
                     then notifyStateChange (TOKEN_UPDATED (Some newToken) (Some newRefreshToken))
                            (updHook h (\<lambda>hk. hk\<lparr>token := Some newToken, refreshToken := Some newRefreshToken\<rparr>) w0)
                     else w0)
           in if mounted w1 h
              then (let (t, w2) = kc_setTimeout h k (5 * 60 * 1000) w1
                    in updHook h (\<lambda>hk. hk\<lparr>updateTokenTimeoutRef := Some t\<rparr>) w2)
              else w1))"

definition setupTokenRefresh :: "nat \<Rightarrow> nat \<Rightarrow> session \<Rightarrow> session" where
  "setupTokenRefresh h k w =
     (if \<not> mounted w h then w else updateToken_start h k (clearRefreshTimer h w))"

text \<open>A timeout of the scheduler fires: it runs \<open>updateToken\<close> again.\<close>

definition timeoutFires :: "nat \<Rightarrow> session \<Rightarrow> session" where
  "timeoutFires t w =
     (case filter (\<lambda>e. fst e = t) (timeouts w) of
        [] \<Rightarrow> w
      | (_, h, k, _) # _ \<Rightarrow> updateToken_start h k (kc_clearTimeout t w))"

text \<open>Recording what a caller's \<open>initKeycloak\<close> promise settles to.\<close>

definition settle :: "nat \<Rightarrow> init_result \<Rightarrow> session \<Rightarrow> session" where
  "settle c r w = w\<lparr>results := results w @ [(c, r)]\<rparr>"

text \<open>The end of \<open>initKeycloak\<close>, after \<open>await loadUserInfo(keycloakInstance)\<close>: the
  scheduler is set up, loading ends, and the caller gets the Keycloak object.\<close>

definition initKeycloak_finish :: "nat \<Rightarrow> nat \<Rightarrow> nat \<Rightarrow> session \<Rightarrow> session" where
  "initKeycloak_finish c h k w =
     settle c (Resolved (VInstance k))
       (updHook h (\<lambda>hk. hk\<lparr>loading := False\<rparr>) (setupTokenRefresh h k w))"

text \<open>\<open>loadUserInfo\<close> once \<open>loadUserProfile\<close> has settled (\<open>None\<close>: it rejected), and the
  rest of \<open>initKeycloak\<close> behind it.\<close>

definition profileSettled :: "string \<Rightarrow> nat \<Rightarrow> string option \<Rightarrow> session \<Rightarrow> session" where
  "profileSettled SUPER_ROLE c profile w =
     (case filter (\<lambda>e. fst e = c) (profileWaiting w) of
        [] \<Rightarrow> w
      | (_, h, k) # _ \<Rightarrow>
          (let w1 = w\<lparr>profileWaiting := filter (\<lambda>e. fst e \<noteq> c) (profileWaiting w)\<rparr>;
               w2 = (if mounted w1 h
                     then (case profile of
                             None \<Rightarrow> updHook h (\<lambda>hk. hk\<lparr>error := Some ''Failed to load user info''\<rparr>) w1
                           | Some pid \<Rightarrow>
                               updHook h (\<lambda>hk. hk\<lparr>userInfo :=
                                 Some (pid, getUserRoles (instanceOf w1 (Some k)),
                                       hasSuperRole SUPER_ROLE (instanceOf w1 (Some k)))\<rparr>) w1)
                     else w1)
           in initKeycloak_finish c h k w2))"

text \<open>\<open>initKeycloak\<close> from the point where \<open>await keycloakInitPromise\<close> has yielded
  \<open>{ keycloakInstance, authenticated }\<close>, up to \<open>await loadUserInfo\<close>.\<close>

definition initKeycloak_continue :: "nat \<Rightarrow> nat \<Rightarrow> nat \<Rightarrow> bool \<Rightarrow> session \<Rightarrow> session" where
  "initKeycloak_continue c h k a w =
     (if mounted w h
      then (let w1 = updHook h (\<lambda>hk. hk\<lparr>keycloak := Some k, authenticated := a\<rparr>) w
            in if a
               then (let inst = instanceOf w1 (Some k);
                         w2 = updHook h (\<lambda>hk. hk\<lparr>token := (case inst of None \<Rightarrow> None | Some i \<Rightarrow> kc_token i),
                                refreshToken := (case inst of None \<Rightarrow> None | Some i \<Rightarrow> kc_refreshToken i)\<rparr>) w1
                     in if (case inst of None \<Rightarrow> False | Some i \<Rightarrow> kc_authenticated i)
                        then w2\<lparr>profileWaiting := profileWaiting w2 @ [(c, h, k)]\<rparr>
                        else initKeycloak_finish c h k w2)
               else settle c (Resolved (VInstance k)) (updHook h (\<lambda>hk. hk\<lparr>loading := False\<rparr>) w1))
      else settle c (Resolved (VInstance k)) w)"

definition runWaiter :: "(string + nat \<times> bool) \<Rightarrow> nat \<times> nat \<times> waiter \<Rightarrow> session \<Rightarrow> session" where
  "runWaiter outcome e w =
     (case e of (c, _, how) \<Rightarrow>
        (case outcome of
           Inl err \<Rightarrow> settle c (Rejected err) w
         | Inr (k, a) \<Rightarrow>
             (case how of
                Adopt \<Rightarrow> settle c (Resolved (VWrapper k a)) w
              | Continue h \<Rightarrow> initKeycloak_continue c h k a w)))"

definition promiseState :: "session \<Rightarrow> nat \<Rightarrow> (string + nat \<times> bool) option" where
  "promiseState w p =
     (if p < length (promises w)
      then (case promises w ! p of
              (k, None) \<Rightarrow> None
            | (k, Some (Inl err)) \<Rightarrow> Some (Inl err)
            | (k, Some (Inr a)) \<Rightarrow> Some (Inr (k, a)))
      else None)"

text \<open>Suspending a caller on the shared promise, or going on at once when the promise
  has settled already.\<close>

definition waitFor :: "nat \<Rightarrow> nat \<Rightarrow> waiter \<Rightarrow> session \<Rightarrow> session" where
  "waitFor c p how w =
     (case promiseState w p of
        None \<Rightarrow> w\<lparr>waiting := waiting w @ [(c, p, how)]\<rparr>
      | Some outcome \<Rightarrow> runWaiter outcome (c, p, how) w)"

text \<open>The body of the \<open>async\<close> function stored in \<open>keycloakInitPromise\<close>, up to
  \<open>await keycloakInstance.init(...)\<close>: the one place where the handshake with the
  identity provider starts.\<close>

definition startHandshake :: "session \<Rightarrow> session" where
  "startHandshake w =
     (let k = length (instances w)
      in w\<lparr>instances := instances w @ [new_Keycloak],
           promises := promises w @ [(k, None)],
           initCalls := initCalls w @ [k],
           keycloakInitPromise := Some (length (promises w))\<rparr>)"

text \<open>The handshake settles: the rest of that \<open>async\<close> function, then everyone who
  waits on the promise. \<open>Inr inst\<close> is the Keycloak object as \<open>init\<close> leaves it.\<close>

definition initSettled :: "nat \<Rightarrow> string + kc_instance \<Rightarrow> session \<Rightarrow> session" where
  "initSettled p outcome w =
     (if p \<ge> length (promises w) \<or> snd (promises w ! p) \<noteq> None then w
      else
        (let k = fst (promises w ! p);
             w1 = (case outcome of
                     Inr inst \<Rightarrow>
                       notifyStateChange (INITIALIZED k (kc_authenticated inst))
                         (w\<lparr>instances := (instances w)[k := inst], keycloakSingleton := Some k,
                            initializationState := initialized\<rparr>)
                   | Inl err \<Rightarrow>
                       notifyStateChange (ERROR (if err = [] then ''Keycloak initialization failed'' else err))
                         (w\<lparr>initializationState := failed, globalError := Some err\<rparr>));
             w2 = w1\<lparr>promises := (promises w1)[p := (k, Some (case outcome of
                                                              Inr inst \<Rightarrow> Inr (kc_authenticated inst)
                                                            | Inl err \<Rightarrow> Inl err))],
                     waiting := filter (\<lambda>e. fst (snd e) \<noteq> p) (waiting w1)\<rparr>
         in fold (runWaiter (case outcome of Inr inst \<Rightarrow> Inr (k, kc_authenticated inst) | Inl err \<Rightarrow> Inl err))
              (filter (\<lambda>e. fst (snd e) = p) (waiting w1)) w2))"

text \<open>\<open>initKeycloak\<close> called by caller \<open>c\<close> through hook \<open>h\<close>, up to its first
  suspension.\<close>

definition initKeycloak :: "nat \<Rightarrow> nat \<Rightarrow> session \<Rightarrow> session" where
  "initKeycloak c h w =
     (if initializationState w = initializing
      then (case keycloakInitPromise w of
              None \<Rightarrow> settle c (Resolved VNull) w
            | Some p \<Rightarrow> waitFor c p Adopt w)
      else if initializationState w = initialized \<and> keycloakSingleton w \<noteq> None
      then settle c (Resolved (VInstance (the (keycloakSingleton w)))) w
      else
        (let w1 = (if initializationState w = failed then resetGlobalState w else w);
             w2 = notifyStateChange LOADING (w1\<lparr>initializationState := initializing, globalError := None\<rparr>);
             w3 = (if keycloakInitPromise w2 = None then startHandshake w2 else w2)
         in waitFor c (the (keycloakInitPromise w3)) (Continue h) w3))"

text \<open>\<open>logout\<close> of hook \<open>h\<close>. \<open>signOut\<close> is how \<open>keycloak.logout\<close> ends: \<open>None\<close> when it
  succeeds, the error message when it fails (the \<open>catch\<close> block then runs).\<close>

definition logout :: "nat \<Rightarrow> string option \<Rightarrow> session \<Rightarrow> session" where
  "logout h signOut w =
     (if h \<ge> length (hooks w) then w
      else case keycloak (hooks w ! h) of
        None \<Rightarrow> w
      | Some k \<Rightarrow>
          (let w1 = clearRefreshTimer h w;
               w2 = (if mounted w1 h
                     then updHook h (\<lambda>hk. hk\<lparr>authenticated := False, userInfo := None,
                            token := None, refreshToken := None, loading := True\<rparr>) w1
                     else w1);
               w3 = resetGlobalState w2;
               w4 = w3\<lparr>logoutCalls := logoutCalls w3 @ [k]\<rparr>
           in case signOut of
                None \<Rightarrow> w4
              | Some msg \<Rightarrow>
                  resetGlobalState
                    (if mounted w4 h
                     then updHook h (\<lambda>hk. hk\<lparr>error := Some (''Logout failed: '' @ msg),
                            loading := False\<rparr>) w4
                     else w4)))"

text \<open>A component that uses the hook mounts: the initial React state is read from the
  globals, the first effect subscribes, the second starts or joins the initialisation.\<close>

definition mount :: "nat \<Rightarrow> session \<Rightarrow> session" where
  "mount c w =
     (let inst = instanceOf w (keycloakSingleton w);
          h = length (hooks w);
          hk = \<lparr> keycloak = keycloakSingleton w,
                 authenticated = (case inst of None \<Rightarrow> False | Some i \<Rightarrow> kc_authenticated i),
                 loading = (initializationState w = initializing),
                 error = globalError w, userInfo = None,
                 token = (case inst of None \<Rightarrow> None | Some i \<Rightarrow> kc_token i),
                 refreshToken = (case inst of None \<Rightarrow> None | Some i \<Rightarrow> kc_refreshToken i),
                 updateTokenTimeoutRef = None, isMountedRef = True \<rparr>;
          w1 = w\<lparr>hooks := hooks w @ [hk], stateSubscribers := stateSubscribers w @ [Callback h False]\<rparr>
      in if initializationState w1 = idle \<or> initializationState w1 = failed
         then initKeycloak c h w1
         else if initializationState w1 = initialized \<and> keycloakSingleton w1 \<noteq> None
         then updHook h (\<lambda>hk. hk\<lparr>keycloak := keycloakSingleton w1,
                authenticated := (case inst of None \<Rightarrow> False | Some i \<Rightarrow> kc_authenticated i),
                token := (case inst of None \<Rightarrow> None | Some i \<Rightarrow> kc_token i),
                refreshToken := (case inst of None \<Rightarrow> None | Some i \<Rightarrow> kc_refreshToken i),
                loading := False\<rparr>) w1
         else w1)"

definition unmount :: "nat \<Rightarrow> session \<Rightarrow> session" where
  "unmount h w =
     clearRefreshTimer h
       (updHook h (\<lambda>hk. hk\<lparr>isMountedRef := False\<rparr>)
          (w\<lparr>stateSubscribers := filter (\<lambda>s. cid s \<noteq> h) (stateSubscribers w)\<rparr>))"

definition example_instance :: kc_instance where
  "example_instance = \<lparr> kc_authenticated = True, kc_token = Some ''t1'',
     kc_refreshToken = Some ''r1'', realmAccess = Some [''user''], resourceAccess = None \<rparr>"

subsection \<open>Notions used to state the properties\<close>

text \<open>A hook holds nothing of a session: it is not authenticated and has no credential
  and no user data.\<close>

definition sessionCleared :: "hook \<Rightarrow> bool" where
  "sessionCleared hk =
     (\<not> authenticated hk \<and> token hk = None \<and> refreshToken hk = None \<and> userInfo hk = None)"

text \<open>A sign-in, step by step: the provider component mounts (caller 0 starts the
  initialisation), the handshake succeeds, the profile is loaded (the first refresh is
  then in flight), and that refresh finds the credential still valid.\<close>

definition just_mounted :: session where
  "just_mounted = mount 0 session_init"

definition handshake_done :: session where
  "handshake_done = initSettled 0 (Inr example_instance) just_mounted"

definition refresh_in_flight :: session where
  "refresh_in_flight = profileSettled ''tsadmin'' 0 (Some ''u'') handshake_done"

definition signed_in :: session where
  "signed_in = updateToken_settled 0 0 NotRefreshed refresh_in_flight"

section \<open>Gateway Interceptor: \<open>api.service.js\<close> and \<open>handleApiError\<close>\<close>

text \<open>\<open>String.prototype.includes\<close> and \<open>toLowerCase\<close> (on ASCII letters).\<close>

fun startsWith :: "string \<Rightarrow> string \<Rightarrow> bool" where
  "startsWith s [] = True"
| "startsWith [] (c # cs) = False"
| "startsWith (x # xs) (c # cs) = (x = c \<and> startsWith xs cs)"

fun str_includes :: "string \<Rightarrow> string \<Rightarrow> bool" where
  "str_includes [] sub = (sub = [])"
| "str_includes (x # xs) sub = (startsWith (x # xs) sub \<or> str_includes xs sub)"

definition toLowerChar :: "char \<Rightarrow> char" where
  "toLowerChar c =
     (case map_of (zip ''ABCDEFGHIJKLMNOPQRSTUVWXYZ'' ''abcdefghijklmnopqrstuvwxyz'') c of
        Some l \<Rightarrow> l
      | None \<Rightarrow> c)"

definition toLowerCase :: "string \<Rightarrow> string" where
  "toLowerCase s = map toLowerChar s"

text \<open>The value of \<open>status\<close> in \<open>handleApiError\<close>: a number or a string.\<close>

datatype status_key = Code nat | Key string

datatype errorMessage_option = PerStatus "status_key \<rightharpoonup> string" | Plain string

text \<open>The request configuration (\<open>error.config\<close>, \<open>originalRequest\<close>).\<close>

record request =
  rid :: nat
  noToken :: bool
  retry :: bool
  showErrorToast :: bool
  Authorization :: "string option"
  messageMap :: "(status_key \<rightharpoonup> string) option"
  errorMessage :: "errorMessage_option option"
  customMessage :: "string option"
  errorMessageMap :: "(status_key \<rightharpoonup> string) option"

text \<open>The axios error: \<open>response_status\<close> is \<open>error.response?.status\<close> and
  \<open>response_message\<close> is \<open>error.response?.data?.message\<close>.\<close>

record api_error =
  config :: request
  response_status :: "nat option"
  response_message :: "string option"
  customStatus :: "string option"

text \<open>The module's state (\<open>getTokenFunction\<close>, \<open>logoutFunction\<close>, \<open>updateTokenFunction\<close>
  are set or \<open>null\<close>; \<open>isRefreshingToken\<close>), and what the interceptor has done: the calls
  to \<open>updateTokenFunction\<close> (their argument), the number of calls to \<open>logoutFunction\<close>,
  the requests sent again (with their Authorization header), and the calls of
  \<open>handleApiError\<close> (request, status, the toast shown if any).\<close>

record gateway =
  getTokenFunction :: bool
  logoutFunction :: bool
  updateTokenFunction :: bool
  isRefreshingToken :: bool
  refreshCalls :: "nat list"
  gw_logoutCalls :: nat
  resent :: "(nat \<times> string) list"
  handled :: "(nat \<times> status_key \<times> (string \<times> string) option) list"

datatype disposition = AwaitingRefresh | AwaitingRetry | RejectedToCaller | ResolvedToCaller

text \<open>JavaScript truthiness of a string that may be absent: \<open>undefined\<close> and \<open>''\<close> are
  falsy.\<close>

definition truthy :: "string option \<Rightarrow> bool" where
  "truthy v = (case v of None \<Rightarrow> False | Some s \<Rightarrow> s \<noteq> [])"

definition lookupMsg :: "(status_key \<rightharpoonup> string) option \<Rightarrow> status_key \<Rightarrow> string option" where
  "lookupMsg m k = (case m of None \<Rightarrow> None | Some f \<Rightarrow> f k)"

text \<open>\<open>getCustomMessage(defaultKey)\<close> inside \<open>handleApiError\<close>; \<open>getErrorMessage\<close> is the
  i18n lookup.\<close>

definition getCustomMessage ::
  "(string \<Rightarrow> string) \<Rightarrow> api_error \<Rightarrow> status_key \<Rightarrow> string \<Rightarrow> string" where
  "getCustomMessage getErrorMessage err status defaultKey =
     (if truthy (lookupMsg (messageMap (config err)) status)
      then the (lookupMsg (messageMap (config err)) status)
      else case (case errorMessage (config err) of
                   Some (PerStatus f) \<Rightarrow> (if truthy (f status) then f status else None)
                 | Some (Plain s) \<Rightarrow> (if s \<noteq> [] then Some s else None)
                 | None \<Rightarrow> None) of
             Some m \<Rightarrow> m
           | None \<Rightarrow>
               (if truthy (customMessage (config err)) then the (customMessage (config err))
                else if truthy (lookupMsg (errorMessageMap (config err)) status)
                then the (lookupMsg (errorMessageMap (config err)) status)
                else getErrorMessage defaultKey))"

text \<open>\<open>handleApiError\<close>: the status is chosen, then the \<open>switch\<close> picks the toast type
  and the default message key.\<close>

definition errorStatus :: "api_error \<Rightarrow> status_key" where
  "errorStatus err =
     (if truthy (customStatus err) then Key (the (customStatus err))
      else case response_status err of Some n \<Rightarrow> Code n | None \<Rightarrow> Key ''unknown'')"

definition switchStatus :: "status_key \<Rightarrow> string \<times> string" where
  "switchStatus status =
     (if status = Code 400 then (''error'', ''400'')
      else if status = Code 401 then (''error'', ''401'')
      else if status = Code 403 then (''error'', ''403'')
      else if status = Code 404 then (''error'', ''404'')
      else if status = Code 409 then (''error'', ''409'')
      else if status = Code 422 then (''error'', ''422'')
      else if status = Code 429 then (''warning'', ''429'')
      else if status = Code 500 then (''error'', ''500'')
      else if status = Key ''incorrect'' then (''error'', ''incorrect'')
      else (''error'', ''unknown''))"

definition handleApiError :: "(string \<Rightarrow> string) \<Rightarrow> api_error \<Rightarrow> gateway \<Rightarrow> gateway" where
  "handleApiError getErrorMessage err g =
     (let status = errorStatus err;
          (toastType, defaultKey) = switchStatus status;
          msg = getCustomMessage getErrorMessage err status defaultKey
      in g\<lparr>handled := handled g @
              [(rid (config err), status,
                if showErrorToast (config err) then Some (toastType, msg) else None)]\<rparr>)"

definition isPasswordError :: "string \<Rightarrow> bool" where
  "isPasswordError message =
     (str_includes message ''Current password is incorrect''
      \<or> str_includes message ''password is incorrect''
      \<or> str_includes (toLowerCase message) ''incorrect password'')"

text \<open>The end of the response error handler: \<open>handleApiError(error, logoutFunction);
  return Promise.reject(error)\<close>.\<close>

definition rejectError ::
  "(string \<Rightarrow> string) \<Rightarrow> api_error \<Rightarrow> gateway \<Rightarrow> disposition \<times> api_error \<times> gateway" where
  "rejectError getErrorMessage err g = (RejectedToCaller, err, handleApiError getErrorMessage err g)"

text \<open>\<open>if (logoutFunction) { logoutFunction(); originalRequest.showErrorToast = false }\<close>,
  as it stands in three places.\<close>

definition logoutIfSet :: "api_error \<Rightarrow> gateway \<Rightarrow> api_error \<times> gateway" where
  "logoutIfSet err g =
     (if logoutFunction g
      then (err\<lparr>config := (config err)\<lparr>showErrorToast := False\<rparr>\<rparr>,
            g\<lparr>gw_logoutCalls := Suc (gw_logoutCalls g)\<rparr>)
      else (err, g))"

text \<open>The response error handler, up to \<open>await updateTokenFunction(30)\<close> when it gets
  there.\<close>

definition onRejected ::
  "(string \<Rightarrow> string) \<Rightarrow> api_error \<Rightarrow> gateway \<Rightarrow> disposition \<times> api_error \<times> gateway" where
  "onRejected getErrorMessage err g =
     (let originalRequest = config err
      in if response_status err = Some 401 \<and> \<not> noToken originalRequest \<and> \<not> isRefreshingToken g
         then (if isPasswordError (case response_message err of None \<Rightarrow> [] | Some m \<Rightarrow> m)
               then rejectError getErrorMessage (err\<lparr>customStatus := Some ''incorrect''\<rparr>) g
               else if \<not> retry originalRequest \<and> updateTokenFunction g
               then (AwaitingRefresh,
                     err\<lparr>config := originalRequest\<lparr>retry := True\<rparr>\<rparr>,
                     g\<lparr>isRefreshingToken := True, refreshCalls := refreshCalls g @ [30]\<rparr>)
               else (case logoutIfSet err g of
                       (error', g') \<Rightarrow> rejectError getErrorMessage error' g'))
         else rejectError getErrorMessage err g)"

text \<open>The paths that give up after the refresh: the fall-through behind
  \<open>if (refreshed)\<close> and the \<open>catch\<close> block do the same, then \<open>finally\<close> clears the flag.\<close>

definition giveUp ::
  "(string \<Rightarrow> string) \<Rightarrow> api_error \<Rightarrow> gateway \<Rightarrow> disposition \<times> api_error \<times> gateway" where
  "giveUp getErrorMessage err g =
     (case logoutIfSet err g of
        (error', g') \<Rightarrow> rejectError getErrorMessage error' (g'\<lparr>isRefreshingToken := False\<rparr>))"

text \<open>The handler once \<open>updateTokenFunction(30)\<close> has settled: \<open>refreshed\<close> is \<open>None\<close>
  when it rejected; \<open>newToken\<close> is what \<open>getTokenFunction()\<close> returns now.\<close>

definition onRefreshSettled ::
  "(string \<Rightarrow> string) \<Rightarrow> bool option \<Rightarrow> string option \<Rightarrow> api_error \<Rightarrow> gateway
     \<Rightarrow> disposition \<times> api_error \<times> gateway" where
  "onRefreshSettled getErrorMessage refreshed newToken err g =
     (if refreshed = Some True \<and> getTokenFunction g \<and> truthy newToken
      then (AwaitingRetry,
            err\<lparr>config := (config err)\<lparr>Authorization := Some (''Bearer '' @ the newToken)\<rparr>\<rparr>,
            g\<lparr>resent := resent g @ [(rid (config err), ''Bearer '' @ the newToken)]\<rparr>)
      else giveUp getErrorMessage err g)"

text \<open>The handler once the request sent again has settled.\<close>

definition onRetrySettled ::
  "(string \<Rightarrow> string) \<Rightarrow> bool \<Rightarrow> api_error \<Rightarrow> gateway \<Rightarrow> disposition \<times> api_error \<times> gateway" where
  "onRetrySettled getErrorMessage succeeded err g =
     (if succeeded then (ResolvedToCaller, err, g\<lparr>isRefreshingToken := False\<rparr>)
      else giveUp getErrorMessage err g)"

definition gateway_init :: gateway where
  "gateway_init = \<lparr> getTokenFunction = True, logoutFunction = True, updateTokenFunction = True,
     isRefreshingToken = False, refreshCalls = [], gw_logoutCalls = 0, resent = [], handled = [] \<rparr>"

definition example_request :: "nat \<Rightarrow> request" where
  "example_request n = \<lparr> rid = n, noToken = False, retry = False, showErrorToast = True,
     Authorization = Some ''Bearer old'', messageMap = None, errorMessage = None,
     customMessage = None, errorMessageMap = None \<rparr>"

definition example_401 :: "nat \<Rightarrow> string \<Rightarrow> api_error" where
  "example_401 n msg = \<lparr> config = example_request n, response_status = Some 401,
     response_message = Some msg, customStatus = None \<rparr>"

subsection \<open>Notions used to state the properties\<close>

text \<open>\<open>error.response?.data?.message || \<close>\<open>''\<close>\<close>

definition bodyMessage :: "api_error \<Rightarrow> string" where
  "bodyMessage err = (case response_message err of None \<Rightarrow> [] | Some m \<Rightarrow> m)"

text \<open>Two requests answered with 401 while no refresh was in flight before the first
  answer; then the refresh succeeds. And a wrong-password 401 that arrives while the
  refresh of the first request is in flight.\<close>

definition after_first_401 :: "disposition \<times> api_error \<times> gateway" where
  "after_first_401 = onRejected (\<lambda>k. k) (example_401 1 ''Token expired'') gateway_init"

definition after_second_401 :: "disposition \<times> api_error \<times> gateway" where
  "after_second_401 =
     onRejected (\<lambda>k. k) (example_401 2 ''Token expired'') (snd (snd after_first_401))"

definition after_refresh :: "disposition \<times> api_error \<times> gateway" where
  "after_refresh =
     onRefreshSettled (\<lambda>k. k) (Some True) (Some ''new'') (fst (snd after_first_401))
       (snd (snd after_second_401))"

definition password_401_while_refreshing :: "disposition \<times> api_error \<times> gateway" where
  "password_401_while_refreshing =
     onRejected (\<lambda>k. k) (example_401 2 ''Current password is incorrect'') (snd (snd after_first_401))"

section \<open>Properties of the Connection Manager\<close>

subsection \<open>What each operation leaves unchanged\<close>

lemma socket_send_frame:
  assumes "socket_send i f s = (c, s')"
  shows "reconnectAttempts s' = reconnectAttempts s \<and> pendingTimers s' = pendingTimers s
    \<and> messageQueue s' = messageQueue s \<and> sockets s' = sockets s \<and> socketRef s' = socketRef s
    \<and> ws_error s' = ws_error s \<and> reconnectTimeoutRef s' = reconnectTimeoutRef s"
  using assms by (auto simp: socket_send_def readyStateOf_def split: option.splits readyState.splits if_splits)

lemma callHook_frame:
  assumes "callHook h s = (c, s')"
  shows "reconnectAttempts s' = reconnectAttempts s \<and> pendingTimers s' = pendingTimers s
    \<and> messageQueue s' = messageQueue s \<and> sockets s' = sockets s \<and> socketRef s' = socketRef s
    \<and> ws_error s' = ws_error s \<and> wire s' = wire s \<and> reconnectTimeoutRef s' = reconnectTimeoutRef s"
  using assms by (auto simp: callHook_def split: option.splits)

lemma flushQueue_frame:
  assumes "flushQueue i qs s = (c, s')"
  shows "reconnectAttempts s' = reconnectAttempts s \<and> pendingTimers s' = pendingTimers s
     \<and> reconnectTimeoutRef s' = reconnectTimeoutRef s"
  using assms
proof (induction qs arbitrary: s)
  case Nil
  then show ?case by auto
next
  case (Cons q qs)
  obtain c1 s1 where ss: "socket_send i (Data q) (s\<lparr>messageQueue := qs\<rparr>) = (c1, s1)"
    by (cases "socket_send i (Data q) (s\<lparr>messageQueue := qs\<rparr>)")
  note fr = socket_send_frame[OF ss]
  show ?case
  proof (cases c1)
    case Normal
    with Cons.prems ss have "flushQueue i qs s1 = (c, s')" by simp
    from Cons.IH[OF this] fr show ?thesis by simp
  next
    case Threw
    with Cons.prems ss have "s' = s1" by simp
    with fr show ?thesis by simp
  qed
qed

lemma forEach_handlers_frame:
  assumes "forEach_handlers hs t s = (c, s')"
  shows "reconnectAttempts s' = reconnectAttempts s \<and> pendingTimers s' = pendingTimers s
     \<and> reconnectTimeoutRef s' = reconnectTimeoutRef s"
  using assms by (induction hs arbitrary: s) (auto simp: Let_def split: if_splits)

lemma connect_frame [simp]:
  "reconnectAttempts (connect cfg s) = reconnectAttempts s"
  "pendingTimers (connect cfg s) = pendingTimers s"
  "reconnectTimeoutRef (connect cfg s) = reconnectTimeoutRef s"
  by (auto simp: connect_def Let_def)

lemma send_frame [simp]:
  "reconnectAttempts (send f s) = reconnectAttempts s"
  "pendingTimers (send f s) = pendingTimers s"
  "reconnectTimeoutRef (send f s) = reconnectTimeoutRef s"
  by (cases "socket_send (the (socketRef s)) f s"; auto simp: send_def dest: socket_send_frame split: option.splits)+

lemma onopen_attempts: "onopen cfg i s = (c, s') \<Longrightarrow> reconnectAttempts s' = 0"
  unfolding onopen_def Let_def
  by (auto split: prod.splits completion.splits option.splits if_splits
      dest!: flushQueue_frame socket_send_frame callHook_frame)

lemma onmessage_frame: "onmessage cfg d p s = (c, s') \<Longrightarrow> reconnectAttempts s' = reconnectAttempts s \<and> pendingTimers s' = pendingTimers s \<and> reconnectTimeoutRef s' = reconnectTimeoutRef s"
  unfolding onmessage_def Let_def
  by (auto split: prod.splits completion.splits option.splits if_splits json.splits
      dest!: forEach_handlers_frame callHook_frame)

lemma onerror_frame: "onerror cfg s = (c, s') \<Longrightarrow> reconnectAttempts s' = reconnectAttempts s \<and> pendingTimers s' = pendingTimers s \<and> reconnectTimeoutRef s' = reconnectTimeoutRef s"
  unfolding onerror_def
  by (auto dest!: callHook_frame)

lemma onclose_attempts: "onclose cfg wc s = (c, s') \<Longrightarrow> reconnectAttempts s \<le> maxReconnectAttempts cfg \<Longrightarrow> reconnectAttempts s' \<le> maxReconnectAttempts cfg"
  unfolding onclose_def Let_def setTimeout_def clearTimeout_def
  by (auto split: prod.splits completion.splits option.splits if_splits
      dest!: callHook_frame)

lemma sendMessage_frame: "sendMessage cfg m s = (c, s') \<Longrightarrow> reconnectAttempts s' = reconnectAttempts s \<and> pendingTimers s' = pendingTimers s \<and> reconnectTimeoutRef s' = reconnectTimeoutRef s"
  unfolding sendMessage_def Let_def
  by (auto split: prod.splits completion.splits option.splits if_splits
      dest!: socket_send_frame)

lemma disconnect_attempts [simp]: "reconnectAttempts (disconnect s) = 0"
  by (simp add: disconnect_def Let_def)

lemma listeners_frame [simp]:
  "reconnectAttempts (addEventListener t h s) = reconnectAttempts s"
  "reconnectAttempts (removeEventListener t h s) = reconnectAttempts s"
  by (auto simp: addEventListener_def removeEventListener_def Let_def split: option.splits)

lemma step_attempts:
  assumes "reconnectAttempts s \<le> maxReconnectAttempts cfg"
  shows "reconnectAttempts (step cfg s ev) \<le> maxReconnectAttempts cfg"
proof (cases ev)
  case (CallSendMessage m)
  then show ?thesis using assms sendMessage_frame[of cfg m s] by (cases "sendMessage cfg m s") auto
next
  case (SocketOpen i)
  then show ?thesis using assms onopen_attempts[of cfg i "s\<lparr>sockets := (sockets s)[i := OPEN]\<rparr>"] 
    by (cases "onopen cfg i (s\<lparr>sockets := (sockets s)[i := OPEN]\<rparr>)") auto
next
  case (SocketMessage i d p)
  then show ?thesis using assms onmessage_frame[of cfg d p s] by (cases "onmessage cfg d p s") auto
next
  case (SocketError i)
  then show ?thesis using assms onerror_frame[of cfg s] by (cases "onerror cfg s") auto
next
  case (SocketClose i wc)
  then show ?thesis using assms onclose_attempts[of cfg wc "s\<lparr>sockets := (sockets s)[i := CLOSED]\<rparr>"] 
    by (cases "onclose cfg wc (s\<lparr>sockets := (sockets s)[i := CLOSED]\<rparr>)") auto
qed (use assms in auto)

lemma run_attempts:
  "reconnectAttempts s \<le> maxReconnectAttempts cfg \<Longrightarrow> reconnectAttempts (run cfg s evs) \<le> maxReconnectAttempts cfg"
  unfolding run_def
  by (induction evs arbitrary: s) (auto intro: step_attempts)

subsection \<open>The outbound queue\<close>

lemma readyStateOf_Some: "readyStateOf s i = Some r \<longleftrightarrow> i < length (sockets s) \<and> sockets s ! i = r"
  by (simp add: readyStateOf_def)

lemma flushQueue_open:
  assumes "readyStateOf s i = Some OPEN"
  shows "\<exists>s'. flushQueue i qs s = (Normal, s') \<and> wire s' = wire s @ map (\<lambda>q. (i, Data q)) qs
     \<and> messageQueue s' = [] \<and> sockets s' = sockets s \<and> socketRef s' = socketRef s
     \<and> connected s' = connected s \<and> connecting s' = connecting s"
  using assms
proof (induction qs arbitrary: s)
  case Nil
  then show ?case by simp
next
  case (Cons q qs)
  let ?s1 = "s\<lparr>messageQueue := qs, wire := wire s @ [(i, Data q)]\<rparr>"
  have "readyStateOf (s\<lparr>messageQueue := qs\<rparr>) i = Some OPEN"
    using Cons.prems by (simp add: readyStateOf_Some)
  then have ss: "socket_send i (Data q) (s\<lparr>messageQueue := qs\<rparr>) = (Normal, ?s1)"
    by (simp add: socket_send_def)
  have "readyStateOf ?s1 i = Some OPEN" using Cons.prems by (simp add: readyStateOf_Some)
  from Cons.IH[OF this] ss show ?case by auto
qed

lemma onopen_wire:
  assumes "readyStateOf s i = Some OPEN"
  shows "\<exists>c s'. onopen cfg i s = (c, s') \<and> wire s' = wire s @ map (\<lambda>q. (i, Data q)) (messageQueue s) @ authFrames cfg i
     \<and> messageQueue s' = [] \<and> sockets s' = sockets s \<and> socketRef s' = socketRef s \<and> connected s'"
proof -
  let ?s1 = "s\<lparr>socket := Some i, connected := True, connecting := False,
                 isConnecting := False, ws_error := None, reconnectAttempts := 0\<rparr>"
  have "readyStateOf ?s1 i = Some OPEN" using assms by (simp add: readyStateOf_Some)
  from flushQueue_open[OF this, of "messageQueue s"] obtain s2 where
    f: "flushQueue i (messageQueue s) ?s1 = (Normal, s2)" and
    w: "wire s2 = wire s @ map (\<lambda>q. (i, Data q)) (messageQueue s)" "messageQueue s2 = []"
      "sockets s2 = sockets s" "socketRef s2 = socketRef s" "connected s2" by auto
  have o: "readyStateOf s2 i = Some OPEN" using assms w by (simp add: readyStateOf_Some)
  show ?thesis
    unfolding onopen_def Let_def using f w o
    by (auto simp: authFrames_def socket_send_def callHook_def split: option.splits)
qed

lemma sendMessage_closed:
  assumes "\<not> refOpen s"
  shows "\<exists>s'. sendMessage cfg m s = (Normal, s') \<and> messageQueue s' = messageQueue s @ [messageData m]
    \<and> wire s' = wire s \<and> \<not> refOpen s'"
  using assms
  by (auto simp: sendMessage_def Let_def connect_def refOpen_def readyStateOf_def nth_append split: option.splits)

lemma sendMessage_open:
  assumes "refOpen s"
  shows "\<exists>s'. sendMessage cfg m s = (Normal, s') \<and> messageQueue s' = messageQueue s
    \<and> wire s' = wire s @ [(the (socketRef s), Data (messageData m))] \<and> refOpen s' \<and> socketRef s' = socketRef s"
proof -
  from assms obtain i where i: "socketRef s = Some i" "readyStateOf s i = Some OPEN"
    by (auto simp: refOpen_def split: option.splits)
  then have "socket_send i (Data (messageData m)) s = (Normal, s\<lparr>wire := wire s @ [(i, Data (messageData m))]\<rparr>)"
    by (simp add: socket_send_def)
  with i assms show ?thesis
    by (simp add: sendMessage_def refOpen_def readyStateOf_Some)
qed

lemma run_append: "run cfg s (xs @ ys) = run cfg (run cfg s xs) ys"
  by (simp add: run_def)

lemma run_sends_closed:
  assumes "\<not> refOpen s"
  shows "messageQueue (run cfg s (map CallSendMessage ms)) = messageQueue s @ map messageData ms
    \<and> wire (run cfg s (map CallSendMessage ms)) = wire s \<and> \<not> refOpen (run cfg s (map CallSendMessage ms))"
  using assms
proof (induction ms arbitrary: s)
  case Nil
  then show ?case by (simp add: run_def)
next
  case (Cons m ms)
  from sendMessage_closed[OF Cons.prems, of cfg m] obtain s' where
    s': "sendMessage cfg m s = (Normal, s')" "messageQueue s' = messageQueue s @ [messageData m]"
      "wire s' = wire s" "\<not> refOpen s'" by auto
  have "run cfg s (map CallSendMessage (m # ms)) = run cfg s' (map CallSendMessage ms)"
    using s' by (simp add: run_def)
  with Cons.IH[OF s'(4)] s' show ?case by simp
qed

lemma run_sends_open:
  assumes "refOpen s"
  shows "messageQueue (run cfg s (map CallSendMessage ms)) = messageQueue s
    \<and> wire (run cfg s (map CallSendMessage ms)) = wire s @ map (\<lambda>m. (the (socketRef s), Data (messageData m))) ms"
  using assms
proof (induction ms arbitrary: s)
  case Nil
  then show ?case by (simp add: run_def)
next
  case (Cons m ms)
  from sendMessage_open[OF Cons.prems, of cfg m] obtain s' where
    s': "sendMessage cfg m s = (Normal, s')" "messageQueue s' = messageQueue s"
      "wire s' = wire s @ [(the (socketRef s), Data (messageData m))]" "refOpen s'" "socketRef s' = socketRef s" by auto
  have "run cfg s (map CallSendMessage (m # ms)) = run cfg s' (map CallSendMessage ms)"
    using s' by (simp add: run_def)
  with Cons.IH[OF s'(4)] s' show ?case by simp
qed

lemma step_open_wire:
  assumes "readyStateOf s i = Some CONNECTING" and "\<not> refOpen s"
  shows "wire (step cfg s (SocketOpen i)) = wire s @ map (\<lambda>q. (i, Data q)) (messageQueue s) @ authFrames cfg i
     \<and> messageQueue (step cfg s (SocketOpen i)) = []
     \<and> socketRef (step cfg s (SocketOpen i)) = socketRef s
     \<and> refOpen (step cfg s (SocketOpen i)) = (socketRef s = Some i)"
proof -
  let ?s0 = "s\<lparr>sockets := (sockets s)[i := OPEN]\<rparr>"
  have i: "i < length (sockets s)" using assms by (simp add: readyStateOf_Some)
  then have o: "readyStateOf ?s0 i = Some OPEN" by (simp add: readyStateOf_Some)
  from onopen_wire[OF o, of cfg] obtain c s' where
    s': "onopen cfg i ?s0 = (c, s')" "wire s' = wire s @ map (\<lambda>q. (i, Data q)) (messageQueue s) @ authFrames cfg i"
     "messageQueue s' = []" "sockets s' = sockets ?s0" "socketRef s' = socketRef s" by auto
  have "refOpen s' = (socketRef s = Some i)"
    using s' i assms by (auto simp: refOpen_def readyStateOf_Some nth_list_update split: option.splits)

  then show ?thesis using assms s' by simp
qed

lemma step_open_flush:
  assumes "readyStateOf s i = Some CONNECTING"
  shows "wire (step cfg s (SocketOpen i)) = wire s @ map (\<lambda>q. (i, Data q)) (messageQueue s) @ authFrames cfg i
     \<and> messageQueue (step cfg s (SocketOpen i)) = []"
proof -
  let ?s0 = "s\<lparr>sockets := (sockets s)[i := OPEN]\<rparr>"
  have i: "i < length (sockets s)" using assms by (simp add: readyStateOf_Some)
  then have o: "readyStateOf ?s0 i = Some OPEN" by (simp add: readyStateOf_Some)
  from onopen_wire[OF o, of cfg] assms show ?thesis by auto
qed


subsection \<open>Inbound dispatch\<close>

lemma uptoThrow_simps [simp]:
  "uptoThrow [] = []"
  "uptoThrow (h # hs) = (if cthrows h then [h] else h # uptoThrow hs)"
  by (simp_all add: uptoThrow_def)

lemma uptoThrow_all: "\<forall>h\<in>set hs. \<not> cthrows h \<Longrightarrow> uptoThrow hs = hs"
  by (induction hs) auto

lemma forEach_handlers_invoked:
  "\<exists>s'. forEach_handlers hs t s = (if \<forall>h\<in>set hs. \<not> cthrows h then Normal else Threw, s')
     \<and> invoked s' = invoked s @ map (\<lambda>h. (cid h, t)) (uptoThrow hs) \<and> wire s' = wire s"
proof (induction hs arbitrary: s)
  case Nil
  then show ?case by simp
next
  case (Cons h hs)
  show ?case
  proof (cases "cthrows h")
    case True
    then show ?thesis by (simp add: Let_def)
  next
    case False
    from Cons.IH[of "s\<lparr>invoked := invoked s @ [(cid h, t)]\<rparr>"] False show ?thesis
      by (auto simp: Let_def)
  qed
qed

lemma send_wire:
  "wire (send f s) = wire s @ (if refOpen s then [(the (socketRef s), f)] else [])"
  "invoked (send f s) = invoked s" "eventListeners (send f s) = eventListeners s"
  by (auto simp: send_def refOpen_def socket_send_def split: option.splits)

lemma refOpen_cong: "socketRef a = socketRef b \<Longrightarrow> sockets a = sockets b \<Longrightarrow> refOpen a = refOpen b"
  by (simp add: refOpen_def readyStateOf_def split: option.splits)

lemma callHook_returns:
  assumes "\<forall>c. h = Some c \<longrightarrow> \<not> cthrows c"
  shows "\<exists>s'. callHook h s = (Normal, s') \<and> wire s' = wire s \<and> invoked s' = invoked s
     \<and> eventListeners s' = eventListeners s \<and> socketRef s' = socketRef s \<and> sockets s' = sockets s"
  using assms by (cases h) (auto simp: callHook_def)

lemma onmessage_dispatch:
  assumes "\<forall>c. onMessage cfg = Some c \<longrightarrow> \<not> cthrows c"
  shows "\<exists>s'. onmessage cfg d (Some (JValue (Some t))) s =
           (if \<forall>h\<in>set (listenersOf s t). \<not> cthrows h then Normal else Threw, s')
     \<and> invoked s' = invoked s @ map (\<lambda>h. (cid h, t)) (uptoThrow (listenersOf s t))
     \<and> wire s' = wire s @ (if t = ''ping'' \<and> refOpen s then [(the (socketRef s), Pong)] else [])"
proof -
  define s1 where "s1 = s\<lparr>lastMessage := Some d,
                 messageHistory := (if enableMessageHistory cfg
                                    then messageHistory s @ [(Received, d)]
                                    else messageHistory s)\<rparr>"
  from callHook_returns[OF assms, of s1] obtain s2 where s2: "callHook (onMessage cfg) s1 = (Normal, s2)" "wire s2 = wire s"
     "invoked s2 = invoked s" "eventListeners s2 = eventListeners s" "socketRef s2 = socketRef s"
     "sockets s2 = sockets s"
    by (auto simp: s1_def)
  have ro: "refOpen s2 = refOpen s" using s2 by (intro refOpen_cong) simp_all
  define s3 where "s3 = (if Some t = Some ''ping'' then send Pong s2 else s2)"
  have s3: "wire s3 = wire s @ (if t = ''ping'' \<and> refOpen s then [(the (socketRef s), Pong)] else [])"
    "invoked s3 = invoked s" "eventListeners s3 = eventListeners s"
    using s2 ro by (auto simp: s3_def send_wire)
  from forEach_handlers_invoked[of "listenersOf s t" t s3] obtain s' where
    s': "forEach_handlers (listenersOf s t) t s3 = (if \<forall>h\<in>set (listenersOf s t). \<not> cthrows h then Normal else Threw, s')"
     "invoked s' = invoked s3 @ map (\<lambda>h. (cid h, t)) (uptoThrow (listenersOf s t))" "wire s' = wire s3"
    by blast
  have "onmessage cfg d (Some (JValue (Some t))) s =
      (case eventListeners s t of None \<Rightarrow> (Normal, s3) | Some hs \<Rightarrow> forEach_handlers hs t s3)"
    unfolding onmessage_def Let_def using s2 s3(3)
    by (cases "eventListeners s t") (auto simp: s1_def[symmetric] s3_def)
  then show ?thesis using s' s3
    by (cases "eventListeners s t") (auto simp: listenersOf_def)
qed

lemma addEventListener_order:
  "listenersOf (addEventListener t h s) t = listenersOf s t @ [h]"
  by (auto simp: addEventListener_def listenersOf_def Let_def split: option.splits)


subsection \<open>Close events\<close>

lemma onclose_no_new_timer:
  assumes "onclose cfg wasClean s = (c, s')"
    and "wasClean \<or> maxReconnectAttempts cfg \<le> reconnectAttempts s"
  shows "set (pendingTimers s') \<subseteq> set (pendingTimers s) \<and> reconnectAttempts s' = reconnectAttempts s"
  using assms unfolding onclose_def Let_def clearTimeout_def
  by (auto split: prod.splits completion.splits option.splits if_splits dest!: callHook_frame)

lemma onclose_exhausted:
  assumes "\<forall>h. onClose cfg = Some h \<longrightarrow> \<not> cthrows h"
    and "maxReconnectAttempts cfg \<le> reconnectAttempts s"
  shows "\<exists>s'. onclose cfg wasClean s = (Normal, s')
     \<and> ws_error s' = Some ''WebSocket reconnect failed, reached max attempts''
     \<and> reconnectTimeoutRef s' = None"
proof -
  define s1 where "s1 = s\<lparr>socket := None, connected := False, connecting := False,
                 isConnecting := False\<rparr>"
  obtain s2 where s2: "callHook (onClose cfg) s1 = (Normal, s2)" "reconnectAttempts s2 = reconnectAttempts s"
    using assms(1) by (cases "onClose cfg") (auto simp: callHook_def s1_def)
  show ?thesis
    unfolding onclose_def Let_def using s2 assms(2)
    by (auto simp: s1_def[symmetric] clearTimeout_def split: option.splits)
qed

lemma step_close_no_new_timer:
  assumes "wasClean \<or> maxReconnectAttempts cfg \<le> reconnectAttempts s"
  shows "set (pendingTimers (step cfg s (SocketClose i wasClean))) \<subseteq> set (pendingTimers s)
    \<and> reconnectAttempts (step cfg s (SocketClose i wasClean)) = reconnectAttempts s"
proof (cases "i < length (sockets s) \<and> readyStateOf s i \<noteq> Some CLOSED")
  case True
  obtain c s' where o: "onclose cfg wasClean (s\<lparr>sockets := (sockets s)[i := CLOSED]\<rparr>) = (c, s')"
    by (cases "onclose cfg wasClean (s\<lparr>sockets := (sockets s)[i := CLOSED]\<rparr>)")
  from onclose_no_new_timer[OF o] assms True o show ?thesis by simp
next
  case False
  then show ?thesis by auto
qed


lemmas ws_eval = run_def connect_def onopen_def onmessage_def onclose_def onerror_def sendMessage_def
  addEventListener_def removeEventListener_def disconnect_def send_def socket_send_def socket_close_def
  callHook_def refOpen_def readyStateOf_def ws_init_def example_config_def Let_def
  setTimeout_def clearTimeout_def messageData_def cleanToken_def listenersOf_def authFrames_def

subsection \<open>C3: queued messages are flushed once, in order, when the socket opens\<close>

text \<open>
  Claim C3. A message passed to \<open>sendMessage\<close> while the current socket is not open is
  appended to the queue and nothing is transmitted. When a connecting socket \<open>i\<close> opens,
  the queue is transmitted on it front to back, each message once, the queue is left
  empty, and only then comes the in-band authentication message, if configured. In a run
  of sends, the open, and further sends, the wire therefore carries the earlier queue,
  the messages sent before the open, the authentication message, and the messages sent
  after the open, in this order and without repetition (the later ones go out at once
  when the socket that opened is the current one, and are queued otherwise).
\<close>

theorem queued_messages_flushed_in_order: 
  "(\<not> refOpen s \<longrightarrow>
      messageQueue (step cfg s (CallSendMessage m)) = messageQueue s @ [messageData m]
      \<and> wire (step cfg s (CallSendMessage m)) = wire s)
   \<and> (readyStateOf s i = Some CONNECTING \<longrightarrow>
      wire (step cfg s (SocketOpen i)) = wire s @ map (\<lambda>q. (i, Data q)) (messageQueue s) @ authFrames cfg i
      \<and> messageQueue (step cfg s (SocketOpen i)) = [])
   \<and> (\<not> refOpen s \<and> readyStateOf (run cfg s (map CallSendMessage ms)) i = Some CONNECTING \<longrightarrow>
      wire (run cfg s (map CallSendMessage ms @ [SocketOpen i] @ map CallSendMessage ms')) =
        wire s @ map (\<lambda>q. (i, Data q)) (messageQueue s @ map messageData ms) @ authFrames cfg i
          @ (if socketRef (run cfg s (map CallSendMessage ms)) = Some i
             then map (\<lambda>m. (i, Data (messageData m))) ms' else []))"
proof (intro conjI impI)
  assume "\<not> refOpen s"
  from sendMessage_closed[OF this, of cfg m]
  show "messageQueue (step cfg s (CallSendMessage m)) = messageQueue s @ [messageData m]"
    "wire (step cfg s (CallSendMessage m)) = wire s" by auto
next
  assume "readyStateOf s i = Some CONNECTING"
  from step_open_flush[OF this, of cfg]
  show "wire (step cfg s (SocketOpen i)) = wire s @ map (\<lambda>q. (i, Data q)) (messageQueue s) @ authFrames cfg i"
    "messageQueue (step cfg s (SocketOpen i)) = []" by auto
next
  assume a: "\<not> refOpen s \<and> readyStateOf (run cfg s (map CallSendMessage ms)) i = Some CONNECTING"
  define s1 where "s1 = run cfg s (map CallSendMessage ms)"
  define s2 where "s2 = step cfg s1 (SocketOpen i)"
  from a run_sends_closed[of s cfg ms] have s1: "messageQueue s1 = messageQueue s @ map messageData ms"
    "wire s1 = wire s" by (auto simp: s1_def)
  from a have "readyStateOf s1 i = Some CONNECTING" by (simp add: s1_def)
  moreover from a run_sends_closed[of s cfg ms] have "\<not> refOpen s1" by (simp add: s1_def)
  ultimately have s2:
    "wire s2 = wire s1 @ map (\<lambda>q. (i, Data q)) (messageQueue s1) @ authFrames cfg i"
    "messageQueue s2 = []" "socketRef s2 = socketRef s1" "refOpen s2 = (socketRef s1 = Some i)"
    using step_open_wire[of s1 i cfg] by (auto simp: s2_def)
  have r: "run cfg s (map CallSendMessage ms @ [SocketOpen i] @ map CallSendMessage ms') = run cfg s2 (map CallSendMessage ms')"
    by (simp add: run_append s1_def s2_def run_def)
  show "wire (run cfg s (map CallSendMessage ms @ [SocketOpen i] @ map CallSendMessage ms')) =
        wire s @ map (\<lambda>q. (i, Data q)) (messageQueue s @ map messageData ms) @ authFrames cfg i
          @ (if socketRef (run cfg s (map CallSendMessage ms)) = Some i
             then map (\<lambda>m. (i, Data (messageData m))) ms' else [])"
  proof (cases "socketRef s1 = Some i")
    case True
    then have "refOpen s2" using s2 by simp
    from run_sends_open[OF this, of cfg ms'] True s1 s2 r show ?thesis by (simp add: s1_def[symmetric])
  next
    case False
    then have "\<not> refOpen s2" using s2 by simp
    from run_sends_closed[OF this, of cfg ms'] False s1 s2 r show ?thesis by (simp add: s1_def[symmetric])
  qed
qed

theorem queued_messages_flushed_in_order_witness:
  "\<not> refOpen (connect example_config ws_init)
   \<and> readyStateOf (connect example_config ws_init) 0 = Some CONNECTING
   \<and> readyStateOf (run example_config (connect example_config ws_init)
         (map CallSendMessage [PString ''a'', PObject ''b''])) 0 = Some CONNECTING
   \<and> messageQueue (step example_config (connect example_config ws_init) (CallSendMessage (PString ''a''))) = [''a'']
   \<and> wire (run example_config (connect example_config ws_init)
         (map CallSendMessage [PString ''a'', PObject ''b''] @ [SocketOpen 0] @ map CallSendMessage [PString ''c'']))
       = [(0, Data ''a''), (0, Data ''b''), (0, Data ''c'')]"
  using queued_messages_flushed_in_order[of "connect example_config ws_init" example_config "PString ''a''" 0
      "[PString ''a'', PObject ''b'']" "[PString ''c'']"]
  by (simp add: ws_eval)

subsection \<open>C4: a heartbeat is answered and also dispatched\<close>

text \<open>
  Claim C4, counterexample. A handler is registered under \<open>ping\<close> on an open
  connection and a \<open>ping\<close> message arrives: the reply goes out, and the handler is
  invoked with the event all the same, since nothing in \<open>onmessage\<close> leaves the
  function after the reply.
\<close>

theorem ping_dispatched_to_ping_handlers:
  "wire (run example_config ws_init
      [CallConnect, SocketOpen 0, CallAddEventListener ''ping'' (Callback 1 False),
       SocketMessage 0 ''P'' (Some (JValue (Some ''ping'')))]) = [(0, Pong)]
   \<and> invoked (run example_config ws_init
      [CallConnect, SocketOpen 0, CallAddEventListener ''ping'' (Callback 1 False)]) = []
   \<and> invoked (run example_config ws_init
      [CallConnect, SocketOpen 0, CallAddEventListener ''ping'' (Callback 1 False),
       SocketMessage 0 ''P'' (Some (JValue (Some ''ping'')))]) = [(1, ''ping'')]"
  by (simp add: ws_eval)

text \<open>
  Claim C4, as the code has it. When \<open>config.onMessage\<close> is absent or returns, an
  inbound message of type \<open>ping\<close> makes the manager send the \<open>pong\<close> reply on its
  current socket if that socket is open, and the event is then dispatched under
  \<open>ping\<close> like any other type: the handlers registered under \<open>ping\<close> are invoked in
  registration order, up to the first one that throws.
\<close>

theorem ping_reply_then_dispatch:
  assumes "\<forall>c. onMessage cfg = Some c \<longrightarrow> \<not> cthrows c"
  shows "wire (snd (onmessage cfg d (Some (JValue (Some ''ping''))) s)) =
           wire s @ (if refOpen s then [(the (socketRef s), Pong)] else [])
       \<and> invoked (snd (onmessage cfg d (Some (JValue (Some ''ping''))) s)) =
           invoked s @ map (\<lambda>h. (cid h, ''ping'')) (uptoThrow (listenersOf s ''ping''))"
  using onmessage_dispatch[OF assms, of d "''ping''" s] by auto

theorem ping_reply_then_dispatch_witness:
  "onMessage example_config = Some (Callback 8 False)
   \<and> wire (snd (onmessage example_config ''P'' (Some (JValue (Some ''ping'')))
        (run example_config ws_init
           [CallConnect, SocketOpen 0, CallAddEventListener ''ping'' (Callback 1 False)]))) = [(0, Pong)]
   \<and> invoked (snd (onmessage example_config ''P'' (Some (JValue (Some ''ping'')))
        (run example_config ws_init
           [CallConnect, SocketOpen 0, CallAddEventListener ''ping'' (Callback 1 False)]))) = [(1, ''ping'')]"
  using ping_reply_then_dispatch[of example_config "''P''"
      "run example_config ws_init [CallConnect, SocketOpen 0, CallAddEventListener ''ping'' (Callback 1 False)]"]
  by (simp add: ws_eval)

subsection \<open>C5: dispatch stops at the first handler that throws\<close>

text \<open>
  Claim C5, counterexample. Two handlers are registered under \<open>info\<close>, the first of
  which throws. An \<open>info\<close> message arrives: the first handler is invoked, the exception
  leaves \<open>forEach\<close>, and the second handler is not invoked.
\<close>

theorem throwing_handler_stops_dispatch:
  "listenersOf (run example_config ws_init
      [CallConnect, SocketOpen 0, CallAddEventListener ''info'' (Callback 1 True),
       CallAddEventListener ''info'' (Callback 2 False)]) ''info'' = [Callback 1 True, Callback 2 False]
   \<and> invoked (run example_config ws_init
      [CallConnect, SocketOpen 0, CallAddEventListener ''info'' (Callback 1 True),
       CallAddEventListener ''info'' (Callback 2 False),
       SocketMessage 0 ''I'' (Some (JValue (Some ''info'')))]) = [(1, ''info'')]
   \<and> (2, ''info'') \<notin> set (invoked (run example_config ws_init
      [CallConnect, SocketOpen 0, CallAddEventListener ''info'' (Callback 1 True),
       CallAddEventListener ''info'' (Callback 2 False),
       SocketMessage 0 ''I'' (Some (JValue (Some ''info'')))]))"
  by (simp add: ws_eval)

text \<open>
  Claim C5, as the code has it. When \<open>config.onMessage\<close> is absent or returns, an
  inbound event of a type other than \<open>ping\<close> is dispatched to the handlers registered
  under its type in registration order, up to and including the first handler that
  throws; when none of them throws, all of them are invoked. Registration appends to the
  list of the type, so that list is in registration order.
\<close>

theorem handlers_run_up_to_first_throw:
  assumes "\<forall>c. onMessage cfg = Some c \<longrightarrow> \<not> cthrows c" and "t \<noteq> ''ping''"
  shows "invoked (snd (onmessage cfg d (Some (JValue (Some t))) s)) =
           invoked s @ map (\<lambda>h. (cid h, t)) (uptoThrow (listenersOf s t))
       \<and> ((\<forall>h\<in>set (listenersOf s t). \<not> cthrows h) \<longrightarrow>
            invoked (snd (onmessage cfg d (Some (JValue (Some t))) s)) =
              invoked s @ map (\<lambda>h. (cid h, t)) (listenersOf s t))
       \<and> listenersOf (addEventListener t h s) t = listenersOf s t @ [h]"
  using onmessage_dispatch[OF assms(1), of d t s] by (auto simp: uptoThrow_all addEventListener_order)

theorem handlers_run_up_to_first_throw_witness:
  "onMessage example_config = Some (Callback 8 False)
   \<and> listenersOf (run example_config ws_init
        [CallConnect, SocketOpen 0, CallAddEventListener ''info'' (Callback 1 False),
         CallAddEventListener ''info'' (Callback 2 False)]) ''info'' = [Callback 1 False, Callback 2 False]
   \<and> invoked (snd (onmessage example_config ''I'' (Some (JValue (Some ''info'')))
        (run example_config ws_init
           [CallConnect, SocketOpen 0, CallAddEventListener ''info'' (Callback 1 False),
            CallAddEventListener ''info'' (Callback 2 False)]))) = [(1, ''info''), (2, ''info'')]"
  using handlers_run_up_to_first_throw[of example_config "''info''" "''I''"
      "run example_config ws_init [CallConnect, SocketOpen 0, CallAddEventListener ''info'' (Callback 1 False),
         CallAddEventListener ''info'' (Callback 2 False)]" "Callback 3 False"]
  by (simp add: ws_eval)

subsection \<open>C6: reconnect attempts are bounded\<close>

text \<open>
  Claim C6. In every state reached from the initial one by any events, the attempt
  counter is at most \<open>maxReconnectAttempts\<close>. A socket that opens resets the counter to
  zero. A close event with \<open>wasClean\<close> adds no reconnect timer. Once the counter has
  reached the maximum, a close event adds no timer and leaves the counter as it is, and,
  when \<open>config.onClose\<close> is absent or returns, the error field reports that the
  maximum was reached.
\<close>

theorem reconnect_attempts_bounded:
  "reconnectAttempts (run cfg ws_init evs) \<le> maxReconnectAttempts cfg
   \<and> (readyStateOf s i = Some CONNECTING \<longrightarrow> reconnectAttempts (step cfg s (SocketOpen i)) = 0)
   \<and> set (pendingTimers (step cfg s (SocketClose i True))) \<subseteq> set (pendingTimers s)
   \<and> (maxReconnectAttempts cfg \<le> reconnectAttempts s \<longrightarrow>
        set (pendingTimers (step cfg s (SocketClose i wasClean))) \<subseteq> set (pendingTimers s)
        \<and> reconnectAttempts (step cfg s (SocketClose i wasClean)) = reconnectAttempts s)
   \<and> (maxReconnectAttempts cfg \<le> reconnectAttempts s \<and> readyStateOf s i \<in> Some ` {CONNECTING, OPEN, CLOSING}
        \<and> (\<forall>h. onClose cfg = Some h \<longrightarrow> \<not> cthrows h) \<longrightarrow>
        ws_error (step cfg s (SocketClose i wasClean)) = Some ''WebSocket reconnect failed, reached max attempts'')"
proof (intro conjI impI)
  show "reconnectAttempts (run cfg ws_init evs) \<le> maxReconnectAttempts cfg"
    by (rule run_attempts) (simp add: ws_init_def)
next
  assume "readyStateOf s i = Some CONNECTING"
  then show "reconnectAttempts (step cfg s (SocketOpen i)) = 0"
    using onopen_attempts[of cfg i "s\<lparr>sockets := (sockets s)[i := OPEN]\<rparr>"]
    by (cases "onopen cfg i (s\<lparr>sockets := (sockets s)[i := OPEN]\<rparr>)") simp
next
  show "set (pendingTimers (step cfg s (SocketClose i True))) \<subseteq> set (pendingTimers s)"
    using step_close_no_new_timer[of True cfg s i] by simp
next
  assume "maxReconnectAttempts cfg \<le> reconnectAttempts s"
  then show "set (pendingTimers (step cfg s (SocketClose i wasClean))) \<subseteq> set (pendingTimers s)"
    "reconnectAttempts (step cfg s (SocketClose i wasClean)) = reconnectAttempts s"
    using step_close_no_new_timer[of wasClean cfg s i] by simp_all
next
  assume a: "maxReconnectAttempts cfg \<le> reconnectAttempts s \<and> readyStateOf s i \<in> Some ` {CONNECTING, OPEN, CLOSING}
        \<and> (\<forall>h. onClose cfg = Some h \<longrightarrow> \<not> cthrows h)"
  then have i: "i < length (sockets s) \<and> readyStateOf s i \<noteq> Some CLOSED"
    by (auto simp: readyStateOf_def split: if_splits)
  from a onclose_exhausted[of cfg "s\<lparr>sockets := (sockets s)[i := CLOSED]\<rparr>" wasClean]
  obtain s' where "onclose cfg wasClean (s\<lparr>sockets := (sockets s)[i := CLOSED]\<rparr>) = (Normal, s')"
    "ws_error s' = Some ''WebSocket reconnect failed, reached max attempts''" by auto
  with i show "ws_error (step cfg s (SocketClose i wasClean)) = Some ''WebSocket reconnect failed, reached max attempts''"
    by simp
qed

theorem reconnect_attempts_bounded_witness:
  "reconnectAttempts (run example_config ws_init (flapping @ [SocketClose 2 False])) \<le> maxReconnectAttempts example_config
   \<and> readyStateOf (run example_config ws_init flapping) 2 = Some CONNECTING
   \<and> maxReconnectAttempts example_config \<le> reconnectAttempts (run example_config ws_init flapping)
   \<and> onClose example_config = Some (Callback 9 False)
   \<and> pendingTimers (step example_config (run example_config ws_init flapping) (SocketClose 2 False)) = []
   \<and> ws_error (step example_config (run example_config ws_init flapping) (SocketClose 2 False))
       = Some ''WebSocket reconnect failed, reached max attempts''
   \<and> reconnectAttempts (step example_config (run example_config ws_init flapping) (SocketOpen 2)) = 0"
  using reconnect_attempts_bounded[of example_config "flapping @ [SocketClose 2 False]"
      "run example_config ws_init flapping" 2 False]
  by (simp add: ws_eval flapping_def)

section \<open>Properties of the Session Manager\<close>

subsection \<open>Notification\<close>

lemma updHook_frame [simp]:
  "delivered (updHook h f w) = delivered w" "timeouts (updHook h f w) = timeouts w"
  "nextTimeout (updHook h f w) = nextTimeout w" "stateSubscribers (updHook h f w) = stateSubscribers w"
  "keycloakSingleton (updHook h f w) = keycloakSingleton w"
  "keycloakInitPromise (updHook h f w) = keycloakInitPromise w"
  "initializationState (updHook h f w) = initializationState w"
  "globalError (updHook h f w) = globalError w"
  "logoutCalls (updHook h f w) = logoutCalls w" "updateTokenCalls (updHook h f w) = updateTokenCalls w"
  "instances (updHook h f w) = instances w" "initCalls (updHook h f w) = initCalls w"
  "length (hooks (updHook h f w)) = length (hooks w)"
  by (simp_all add: updHook_def)

lemma updHook_nth:
  "i < length (hooks w) \<Longrightarrow> hooks (updHook h f w) ! i = (if i = h then f (hooks w ! i) else hooks w ! i)"
  by (simp add: updHook_def nth_list_update)

lemma forEach_subscribers_delivered:
  "delivered (forEach_subscribers subs n w) = delivered w @ map (\<lambda>sub. (cid sub, n)) subs"
  by (induction subs arbitrary: w) (simp_all add: callSubscriber_def Let_def)

lemma forEach_subscribers_frame:
  "timeouts (forEach_subscribers subs n w) = timeouts w
   \<and> nextTimeout (forEach_subscribers subs n w) = nextTimeout w
   \<and> stateSubscribers (forEach_subscribers subs n w) = stateSubscribers w
   \<and> keycloakSingleton (forEach_subscribers subs n w) = keycloakSingleton w
   \<and> keycloakInitPromise (forEach_subscribers subs n w) = keycloakInitPromise w
   \<and> initializationState (forEach_subscribers subs n w) = initializationState w
   \<and> globalError (forEach_subscribers subs n w) = globalError w
   \<and> logoutCalls (forEach_subscribers subs n w) = logoutCalls w
   \<and> updateTokenCalls (forEach_subscribers subs n w) = updateTokenCalls w
   \<and> instances (forEach_subscribers subs n w) = instances w
   \<and> initCalls (forEach_subscribers subs n w) = initCalls w
   \<and> length (hooks (forEach_subscribers subs n w)) = length (hooks w)"
  by (induction subs arbitrary: w) (simp_all add: callSubscriber_def Let_def)

lemma handleStateChange_refs:
  "isMountedRef (handleStateChange n hk) = isMountedRef hk"
  "updateTokenTimeoutRef (handleStateChange n hk) = updateTokenTimeoutRef hk"
  by (auto simp: handleStateChange_def split: notification.splits)

lemma handleStateChange_RESET_cleared:
  "\<not> authenticated hk \<Longrightarrow> \<not> authenticated (handleStateChange RESET hk)"
  "token hk = None \<Longrightarrow> token (handleStateChange RESET hk) = None"
  "refreshToken hk = None \<Longrightarrow> refreshToken (handleStateChange RESET hk) = None"
  "userInfo hk = None \<Longrightarrow> userInfo (handleStateChange RESET hk) = None"
  by (auto simp: handleStateChange_def)

lemma forEach_subscribers_hook:
  assumes "h < length (hooks w)"
  shows "isMountedRef (hooks (forEach_subscribers subs n w) ! h) = isMountedRef (hooks w ! h)
       \<and> updateTokenTimeoutRef (hooks (forEach_subscribers subs n w) ! h) = updateTokenTimeoutRef (hooks w ! h)"
  using assms
proof (induction subs arbitrary: w)
  case Nil
  then show ?case by simp
next
  case (Cons sub subs)
  let ?w1 = "w\<lparr>delivered := delivered w @ [(cid sub, n)]\<rparr>"
  show ?case
  proof (cases "cthrows sub")
    case True
    with Cons.IH[of ?w1] Cons.prems show ?thesis by (simp add: callSubscriber_def Let_def)
  next
    case False
    have "h < length (hooks (updHook (cid sub) (handleStateChange n) ?w1))" using Cons.prems by simp
    from Cons.IH[OF this] False Cons.prems show ?thesis
      by (simp add: callSubscriber_def Let_def updHook_nth handleStateChange_refs)
  qed
qed

lemma forEach_subscribers_RESET:
  assumes "h < length (hooks w)" and "\<not> authenticated (hooks w ! h)" and "token (hooks w ! h) = None"
    and "refreshToken (hooks w ! h) = None" and "userInfo (hooks w ! h) = None"
  shows "\<not> authenticated (hooks (forEach_subscribers subs RESET w) ! h)
       \<and> token (hooks (forEach_subscribers subs RESET w) ! h) = None
       \<and> refreshToken (hooks (forEach_subscribers subs RESET w) ! h) = None
       \<and> userInfo (hooks (forEach_subscribers subs RESET w) ! h) = None"
  using assms
proof (induction subs arbitrary: w)
  case Nil
  then show ?case by simp
next
  case (Cons sub subs)
  let ?w1 = "w\<lparr>delivered := delivered w @ [(cid sub, RESET)]\<rparr>"
  show ?case
  proof (cases "cthrows sub")
    case True
    with Cons.IH[of ?w1] Cons.prems show ?thesis by (simp add: callSubscriber_def Let_def)
  next
    case False
    let ?w2 = "updHook (cid sub) (handleStateChange RESET) ?w1"
    have "h < length (hooks ?w2)" "\<not> authenticated (hooks ?w2 ! h)" "token (hooks ?w2 ! h) = None"
      "refreshToken (hooks ?w2 ! h) = None" "userInfo (hooks ?w2 ! h) = None"
      using Cons.prems by (auto simp: updHook_nth handleStateChange_RESET_cleared)
    from Cons.IH[OF this] False show ?thesis
      by (simp add: callSubscriber_def Let_def)
  qed
qed


subsection \<open>Reset and logout\<close>

lemma resetGlobalState_globals:
  "keycloakSingleton (resetGlobalState w) = None \<and> keycloakInitPromise (resetGlobalState w) = None
   \<and> initializationState (resetGlobalState w) = idle \<and> globalError (resetGlobalState w) = None
   \<and> timeouts (resetGlobalState w) = timeouts w \<and> logoutCalls (resetGlobalState w) = logoutCalls w
   \<and> length (hooks (resetGlobalState w)) = length (hooks w)"
  by (simp add: resetGlobalState_def notifyStateChange_def forEach_subscribers_frame)

lemma resetGlobalState_hook:
  assumes "h < length (hooks w)"
  shows "isMountedRef (hooks (resetGlobalState w) ! h) = isMountedRef (hooks w ! h)
       \<and> updateTokenTimeoutRef (hooks (resetGlobalState w) ! h) = updateTokenTimeoutRef (hooks w ! h)"
  using forEach_subscribers_hook[of h "w\<lparr>keycloakSingleton := None, keycloakInitPromise := None,
          initializationState := idle, globalError := None\<rparr>" "stateSubscribers w" RESET] assms
  by (simp add: resetGlobalState_def notifyStateChange_def)

lemma resetGlobalState_cleared:
  assumes "h < length (hooks w)" and "sessionCleared (hooks w ! h)"
  shows "sessionCleared (hooks (resetGlobalState w) ! h)"
  using forEach_subscribers_RESET[of h "w\<lparr>keycloakSingleton := None, keycloakInitPromise := None,
          initializationState := idle, globalError := None\<rparr>" "stateSubscribers w"] assms
  by (simp add: resetGlobalState_def notifyStateChange_def sessionCleared_def)

lemma clearRefreshTimer_props:
  assumes "h < length (hooks w)"
  shows "length (hooks (clearRefreshTimer h w)) = length (hooks w)
    \<and> updateTokenTimeoutRef (hooks (clearRefreshTimer h w) ! h) = None
    \<and> (\<forall>t. updateTokenTimeoutRef (hooks w ! h) = Some t \<longrightarrow> t \<notin> fst ` set (timeouts (clearRefreshTimer h w)))
    \<and> set (timeouts (clearRefreshTimer h w)) \<subseteq> set (timeouts w)
    \<and> isMountedRef (hooks (clearRefreshTimer h w) ! h) = isMountedRef (hooks w ! h)
    \<and> keycloak (hooks (clearRefreshTimer h w) ! h) = keycloak (hooks w ! h)
    \<and> logoutCalls (clearRefreshTimer h w) = logoutCalls w"
  using assms
  by (cases "updateTokenTimeoutRef (hooks w ! h)")
     (auto simp: clearRefreshTimer_def updHook_def kc_clearTimeout_def)

lemma hasRole_unauthenticated: "\<not> authenticated hk \<Longrightarrow> \<not> hasRole SUPER_ROLE w hk r"
  by (simp add: hasRole_def)

lemma logout_start_props:
  fixes k :: nat
  assumes h: "h < length (hooks w)" and m: "isMountedRef (hooks w ! h)"
  defines "w2 \<equiv> updHook h (\<lambda>hk. hk\<lparr>authenticated := False, userInfo := None,
                            token := None, refreshToken := None, loading := True\<rparr>) (clearRefreshTimer h w)"
  defines "w4 \<equiv> (resetGlobalState w2)\<lparr>logoutCalls := logoutCalls (resetGlobalState w2) @ [k]\<rparr>"
  shows "h < length (hooks w4) \<and> isMountedRef (hooks w4 ! h) \<and> updateTokenTimeoutRef (hooks w4 ! h) = None
     \<and> sessionCleared (hooks w4 ! h) \<and> set (timeouts w4) \<subseteq> set (timeouts (clearRefreshTimer h w))
     \<and> logoutCalls w4 = logoutCalls w @ [k]
     \<and> keycloakSingleton w4 = None \<and> keycloakInitPromise w4 = None
     \<and> initializationState w4 = idle \<and> globalError w4 = None"
proof -
  note c = clearRefreshTimer_props[OF h]
  have l2: "h < length (hooks w2)" using c h by (simp add: w2_def)
  have h2: "isMountedRef (hooks w2 ! h)" "updateTokenTimeoutRef (hooks w2 ! h) = None"
    "sessionCleared (hooks w2 ! h)" "timeouts w2 = timeouts (clearRefreshTimer h w)"
    "logoutCalls w2 = logoutCalls w"
    using c h m by (simp_all add: w2_def updHook_nth sessionCleared_def)
  from resetGlobalState_globals[of w2] resetGlobalState_hook[OF l2] resetGlobalState_cleared[OF l2 h2(3)] l2 h2
  show ?thesis by (simp add: w4_def)
qed


subsection \<open>The refresh scheduler\<close>

lemma notify_mounted:
  "mounted (notifyStateChange n w) h = mounted w h"
proof (cases "h < length (hooks w)")
  case True
  from forEach_subscribers_hook[OF True, of "stateSubscribers w" n] forEach_subscribers_frame[of "stateSubscribers w" n w]
  show ?thesis using True by (simp add: mounted_def notifyStateChange_def)
next
  case False
  with forEach_subscribers_frame[of "stateSubscribers w" n w] show ?thesis
    by (simp add: mounted_def notifyStateChange_def)
qed

lemma notify_timeouts:
  "timeouts (notifyStateChange n w) = timeouts w" "nextTimeout (notifyStateChange n w) = nextTimeout w"
  "updateTokenCalls (notifyStateChange n w) = updateTokenCalls w"
  "length (hooks (notifyStateChange n w)) = length (hooks w)"
  using forEach_subscribers_frame[of "stateSubscribers w" n w] by (simp_all add: notifyStateChange_def)

lemma rearm:
  assumes "mounted w h"
  shows "timeouts (case kc_setTimeout h k d w of (t, w1) \<Rightarrow> updHook h (\<lambda>hk. hk\<lparr>updateTokenTimeoutRef := Some t\<rparr>) w1)
           = timeouts w @ [(nextTimeout w, h, k, d)]
       \<and> updateTokenTimeoutRef (hooks (case kc_setTimeout h k d w of (t, w1) \<Rightarrow> updHook h (\<lambda>hk. hk\<lparr>updateTokenTimeoutRef := Some t\<rparr>) w1) ! h)
           = Some (nextTimeout w)
       \<and> updateTokenCalls (case kc_setTimeout h k d w of (t, w1) \<Rightarrow> updHook h (\<lambda>hk. hk\<lparr>updateTokenTimeoutRef := Some t\<rparr>) w1)
           = updateTokenCalls w
       \<and> mounted (case kc_setTimeout h k d w of (t, w1) \<Rightarrow> updHook h (\<lambda>hk. hk\<lparr>updateTokenTimeoutRef := Some t\<rparr>) w1) h"
  using assms by (simp add: kc_setTimeout_def updHook_def mounted_def)

lemma updateToken_settled_rearms:
  assumes "mounted w h" and "outcome \<noteq> RefreshFailed"
  shows "timeouts (updateToken_settled h k outcome w) = timeouts w @ [(nextTimeout w, h, k, 300000)]
       \<and> updateTokenTimeoutRef (hooks (updateToken_settled h k outcome w) ! h) = Some (nextTimeout w)
       \<and> updateTokenCalls (updateToken_settled h k outcome w) = updateTokenCalls w
       \<and> mounted (updateToken_settled h k outcome w) h"
proof (cases outcome)
  case RefreshFailed
  with assms show ?thesis by simp
next
  case NotRefreshed
  with rearm[OF assms(1), of k 300000] assms show ?thesis
    by (simp add: updateToken_settled_def)
next
  case (Refreshed t r)
  define w0 where "w0 = storeTokens k t r w"
  define w1 where "w1 = notifyStateChange (TOKEN_UPDATED (Some t) (Some r))
                            (updHook h (\<lambda>hk. hk\<lparr>token := Some t, refreshToken := Some r\<rparr>) w0)"
  have m0: "mounted w0 h" using assms(1) by (simp add: w0_def storeTokens_def mounted_def)
  have "mounted (updHook h (\<lambda>hk. hk\<lparr>token := Some t, refreshToken := Some r\<rparr>) w0) h"
    using m0 by (simp add: mounted_def updHook_def)
  then have m1: "mounted w1 h" by (simp add: w1_def notify_mounted)
  have t1: "timeouts w1 = timeouts w" "nextTimeout w1 = nextTimeout w" "updateTokenCalls w1 = updateTokenCalls w"
    by (simp_all add: w1_def notify_timeouts w0_def storeTokens_def)
  have "updateToken_settled h k outcome w =
      (case kc_setTimeout h k 300000 w1 of (t, w2) \<Rightarrow> updHook h (\<lambda>hk. hk\<lparr>updateTokenTimeoutRef := Some t\<rparr>) w2)"
    using Refreshed m0 m1 by (simp add: updateToken_settled_def Let_def w0_def[symmetric] w1_def[symmetric])
  with rearm[OF m1, of k 300000] t1 show ?thesis by simp
qed

lemma updateToken_settled_failed:
  assumes "mounted w h"
  shows "timeouts (updateToken_settled h k RefreshFailed w) = timeouts w
       \<and> updateTokenTimeoutRef (hooks (updateToken_settled h k RefreshFailed w) ! h) = updateTokenTimeoutRef (hooks w ! h)
       \<and> error (hooks (updateToken_settled h k RefreshFailed w) ! h) = Some ''Authentication session expired. Please login again.''"
  using assms by (simp add: updateToken_settled_def mounted_def updHook_def)


subsection \<open>Concurrent initialisation\<close>

lemma initKeycloak_while_initializing:
  assumes "initializationState w = initializing" and "keycloakInitPromise w = Some p"
    and "promiseState w p = None"
  shows "initKeycloak c h w = w\<lparr>waiting := waiting w @ [(c, p, Adopt)]\<rparr>"
  using assms by (simp add: initKeycloak_def waitFor_def)

lemma concurrent_initKeycloak_single_handshake:
  assumes "initializationState w = initializing" and "keycloakInitPromise w = Some p"
    and "promiseState w p = None"
  shows "initCalls (foldl (\<lambda>w c. initKeycloak c h w) w cs) = initCalls w
       \<and> waiting (foldl (\<lambda>w c. initKeycloak c h w) w cs) = waiting w @ map (\<lambda>c. (c, p, Adopt)) cs"
  using assms
proof (induction cs arbitrary: w)
  case Nil
  then show ?case by simp
next
  case (Cons c cs)
  let ?w1 = "w\<lparr>waiting := waiting w @ [(c, p, Adopt)]\<rparr>"
  have e: "initKeycloak c h w = ?w1" using Cons.prems by (rule initKeycloak_while_initializing)
  have "promiseState ?w1 p = promiseState w p" by (simp add: promiseState_def)
  then have "initializationState ?w1 = initializing" "keycloakInitPromise ?w1 = Some p" "promiseState ?w1 p = None"
    using Cons.prems by simp_all
  from Cons.IH[OF this] e show ?case by simp
qed

subsection \<open>The example sign-in, evaluated\<close>

lemma just_mounted_eval:
  "just_mounted = \<lparr>keycloakSingleton = None, keycloakInitPromise = Some 0,
    initializationState = initializing, globalError = None,
    stateSubscribers = [Callback 0 False],
    hooks =
      [\<lparr>keycloak = None, authenticated = False, loading = False,
          error = None, userInfo = None, token = None, refreshToken = None,
          updateTokenTimeoutRef = None, isMountedRef = True\<rparr>],
    instances = [new_Keycloak],
    promises = [(0, None)], initCalls = [0], updateTokenCalls = [],
    logoutCalls = [], timeouts = [], nextTimeout = 0,
    delivered = [(0, LOADING)], waiting = [(0, 0, Continue 0)],
    profileWaiting = [], results = []\<rparr>"
  by (simp add: just_mounted_def mount_def session_init_def instanceOf_def initKeycloak_def
      notifyStateChange_def callSubscriber_def updHook_def handleStateChange_def
      startHandshake_def waitFor_def promiseState_def Let_def)

lemma handshake_done_eval:
  "handshake_done = \<lparr>keycloakSingleton = Some 0, keycloakInitPromise = Some 0,
    initializationState = initialized, globalError = None,
    stateSubscribers = [Callback 0 False],
    hooks =
      [\<lparr>keycloak = Some 0, authenticated = True, loading = False,
          error = None, userInfo = None, token = Some ''t1'',
          refreshToken = Some ''r1'', updateTokenTimeoutRef = None,
          isMountedRef = True\<rparr>],
    instances = [example_instance],
    promises = [(0, Some (Inr True))], initCalls = [0],
    updateTokenCalls = [], logoutCalls = [], timeouts = [], nextTimeout = 0,
    delivered = [(0, LOADING), (0, INITIALIZED 0 True)], waiting = [],
    profileWaiting = [(0, 0, 0)], results = []\<rparr>"
  by (simp add: handshake_done_def just_mounted_eval initSettled_def
      notifyStateChange_def callSubscriber_def updHook_def handleStateChange_def
      runWaiter_def initKeycloak_continue_def mounted_def instanceOf_def example_instance_def Let_def)

lemma refresh_in_flight_eval:
  "refresh_in_flight = \<lparr>keycloakSingleton = Some 0, keycloakInitPromise = Some 0,
    initializationState = initialized, globalError = None,
    stateSubscribers = [Callback 0 False],
    hooks =
      [\<lparr>keycloak = Some 0, authenticated = True, loading = False,
          error = None, userInfo = Some (''u'', [''user''], False),
          token = Some ''t1'', refreshToken = Some ''r1'',
          updateTokenTimeoutRef = None, isMountedRef = True\<rparr>],
    instances = [example_instance],
    promises = [(0, Some (Inr True))], initCalls = [0],
    updateTokenCalls = [(0, 30)], logoutCalls = [], timeouts = [],
    nextTimeout = 0, delivered = [(0, LOADING), (0, INITIALIZED 0 True)],
    waiting = [], profileWaiting = [],
    results = [(0, Resolved (VInstance 0))]\<rparr>"
  by (simp add: refresh_in_flight_def handshake_done_eval profileSettled_def mounted_def updHook_def
      getUserRoles_def getClientRoles_def hasSuperRole_def instanceOf_def example_instance_def
      initKeycloak_finish_def setupTokenRefresh_def clearRefreshTimer_def updateToken_start_def
      settle_def Let_def)

lemma signed_in_eval:
  "signed_in = \<lparr>keycloakSingleton = Some 0, keycloakInitPromise = Some 0,
    initializationState = initialized, globalError = None,
    stateSubscribers = [Callback 0 False],
    hooks =
      [\<lparr>keycloak = Some 0, authenticated = True, loading = False,
          error = None, userInfo = Some (''u'', [''user''], False),
          token = Some ''t1'', refreshToken = Some ''r1'',
          updateTokenTimeoutRef = Some 0, isMountedRef = True\<rparr>],
    instances = [example_instance],
    promises = [(0, Some (Inr True))], initCalls = [0],
    updateTokenCalls = [(0, 30)], logoutCalls = [], timeouts = [(0, 0, 0, 300000)],
    nextTimeout = 1, delivered = [(0, LOADING), (0, INITIALIZED 0 True)],
    waiting = [], profileWaiting = [],
    results = [(0, Resolved (VInstance 0))]\<rparr>"
  by (simp add: signed_in_def refresh_in_flight_eval updateToken_settled_def mounted_def
      kc_setTimeout_def updHook_def)

lemma two_callers_eval:
  "initSettled 0 (Inr example_instance) (initKeycloak 1 0 just_mounted) =
     handshake_done\<lparr>results := [(1, Resolved (VWrapper 0 True))]\<rparr>"
  by (simp add: handshake_done_eval just_mounted_eval initKeycloak_def waitFor_def promiseState_def
      initSettled_def notifyStateChange_def callSubscriber_def updHook_def handleStateChange_def
      runWaiter_def initKeycloak_continue_def mounted_def instanceOf_def example_instance_def
      settle_def Let_def)

subsection \<open>C1: concurrent callers of \<open>initKeycloak\<close>\<close>

text \<open>
  Claim C1, evaluated on two callers. Caller 0 starts the initialisation and caller 1
  calls \<open>initKeycloak\<close> before the handshake has resolved. One handshake is made
  (\<open>initCalls\<close> holds one entry). After it, caller 1, who was handed
  \<open>keycloakInitPromise\<close> itself, resolves to the object
  \<open>{ keycloakInstance, authenticated }\<close>, while caller 0 resolves to the Keycloak
  object: the two callers do not resolve to the same value.
\<close>

theorem initKeycloak_concurrent_callers_results:
  "initCalls (profileSettled ''tsadmin'' 0 (Some ''u'')
      (initSettled 0 (Inr example_instance) (initKeycloak 1 0 (mount 0 session_init)))) = [0]
   \<and> results (profileSettled ''tsadmin'' 0 (Some ''u'')
      (initSettled 0 (Inr example_instance) (initKeycloak 1 0 (mount 0 session_init))))
     = [(1, Resolved (VWrapper 0 True)), (0, Resolved (VInstance 0))]
   \<and> Resolved (VWrapper 0 True) \<noteq> Resolved (VInstance 0)"
  unfolding just_mounted_def[symmetric] two_callers_eval
  by (simp add: handshake_done_eval profileSettled_def
      mounted_def updHook_def getUserRoles_def getClientRoles_def hasSuperRole_def instanceOf_def
      example_instance_def initKeycloak_finish_def setupTokenRefresh_def clearRefreshTimer_def
      updateToken_start_def settle_def Let_def)

subsection \<open>C7: the refresh timer is re-armed unless the attempt failed\<close>

text \<open>
  Claim C7, counterexample. After the sign-in the first refresh is in flight. When it
  completes without refreshing, a timeout of 300000 ms is armed; when it fails, no
  timeout is armed and the hook's timer reference stays empty.
\<close>

theorem failed_refresh_not_rearmed:
  "updateTokenCalls refresh_in_flight = [(0, 30)]
   \<and> timeouts (updateToken_settled 0 0 NotRefreshed refresh_in_flight) = [(0, 0, 0, 300000)]
   \<and> timeouts (updateToken_settled 0 0 RefreshFailed refresh_in_flight) = []
   \<and> updateTokenTimeoutRef (hooks (updateToken_settled 0 0 RefreshFailed refresh_in_flight) ! 0) = None"
  by (simp add: refresh_in_flight_eval updateToken_settled_def mounted_def kc_setTimeout_def updHook_def)

text \<open>
  Claim C7, as the code has it. For a mounted hook: \<open>setupTokenRefresh\<close> calls
  \<open>updateToken(30)\<close> at once; after an attempt that does not fail, whether or not the
  credential was refreshed, one timeout of five minutes (300000 ms) is armed and kept in
  the hook's timer reference, and when it fires \<open>updateToken(30)\<close> is called again;
  after an attempt that fails, no timeout is armed and the hook's error is set instead;
  \<open>logout\<close> of a hook that holds a Keycloak object cancels the timeout its reference
  names and empties the reference. \<open>resetGlobalState\<close> by itself leaves the pending
  timeouts as they are.
\<close>

theorem refresh_timer_rearmed_unless_failed:
  "(mounted w h \<longrightarrow>
      updateTokenCalls (setupTokenRefresh h k w) = updateTokenCalls w @ [(k, 30)])
   \<and> (mounted w h \<and> outcome \<noteq> RefreshFailed \<longrightarrow>
      timeouts (updateToken_settled h k outcome w) = timeouts w @ [(nextTimeout w, h, k, 5 * 60 * 1000)]
      \<and> updateTokenTimeoutRef (hooks (updateToken_settled h k outcome w) ! h) = Some (nextTimeout w))
   \<and> (mounted w h \<and> outcome \<noteq> RefreshFailed \<and> (\<forall>e\<in>set (timeouts w). fst e < nextTimeout w) \<longrightarrow>
      updateTokenCalls (timeoutFires (nextTimeout w) (updateToken_settled h k outcome w))
        = updateTokenCalls w @ [(k, 30)])
   \<and> (mounted w h \<longrightarrow>
      timeouts (updateToken_settled h k RefreshFailed w) = timeouts w
      \<and> updateTokenTimeoutRef (hooks (updateToken_settled h k RefreshFailed w) ! h)
          = updateTokenTimeoutRef (hooks w ! h)
      \<and> error (hooks (updateToken_settled h k RefreshFailed w) ! h)
          = Some ''Authentication session expired. Please login again.'')
   \<and> (mounted w h \<and> keycloak (hooks w ! h) \<noteq> None \<and> updateTokenTimeoutRef (hooks w ! h) = Some t \<longrightarrow>
      t \<notin> fst ` set (timeouts (logout h signOut w))
      \<and> updateTokenTimeoutRef (hooks (logout h signOut w) ! h) = None)
   \<and> timeouts (resetGlobalState w) = timeouts w"
proof (intro conjI impI)
  assume m: "mounted w h"
  then have "mounted (clearRefreshTimer h w) h"
    using clearRefreshTimer_props[of h w] by (simp add: mounted_def)
  moreover have "updateTokenCalls (clearRefreshTimer h w) = updateTokenCalls w"
    by (simp add: clearRefreshTimer_def kc_clearTimeout_def split: option.splits)
  ultimately show "updateTokenCalls (setupTokenRefresh h k w) = updateTokenCalls w @ [(k, 30)]"
    using m by (simp add: setupTokenRefresh_def updateToken_start_def)
next
  assume a: "mounted w h \<and> outcome \<noteq> RefreshFailed"
  from updateToken_settled_rearms[of w h outcome k] a
  show "timeouts (updateToken_settled h k outcome w) = timeouts w @ [(nextTimeout w, h, k, 5 * 60 * 1000)]"
    "updateTokenTimeoutRef (hooks (updateToken_settled h k outcome w) ! h) = Some (nextTimeout w)"
    by simp_all
next
  assume a: "mounted w h \<and> outcome \<noteq> RefreshFailed \<and> (\<forall>e\<in>set (timeouts w). fst e < nextTimeout w)"
  define w' where "w' = updateToken_settled h k outcome w"
  from updateToken_settled_rearms[of w h outcome k] a have r:
    "timeouts w' = timeouts w @ [(nextTimeout w, h, k, 300000)]" "updateTokenCalls w' = updateTokenCalls w"
    "mounted w' h" by (simp_all add: w'_def)
  have f: "filter (\<lambda>e. fst e = nextTimeout w) (timeouts w) = []"
    using a by (auto simp: filter_empty_conv)
  have "mounted (kc_clearTimeout (nextTimeout w) w') h" using r(3) by (simp add: mounted_def kc_clearTimeout_def)
  then show "updateTokenCalls (timeoutFires (nextTimeout w) (updateToken_settled h k outcome w)) = updateTokenCalls w @ [(k, 30)]"
    using r f by (simp add: timeoutFires_def w'_def[symmetric] updateToken_start_def kc_clearTimeout_def)
next
  assume m: "mounted w h"
  from updateToken_settled_failed[OF m, of k]
  show "timeouts (updateToken_settled h k RefreshFailed w) = timeouts w"
    "updateTokenTimeoutRef (hooks (updateToken_settled h k RefreshFailed w) ! h) = updateTokenTimeoutRef (hooks w ! h)"
    "error (hooks (updateToken_settled h k RefreshFailed w) ! h) = Some ''Authentication session expired. Please login again.''"
    by simp_all
next
  assume a: "mounted w h \<and> keycloak (hooks w ! h) \<noteq> None \<and> updateTokenTimeoutRef (hooks w ! h) = Some t"
  then obtain k0 where k0: "keycloak (hooks w ! h) = Some k0" by auto
  define w2 where "w2 = updHook h (\<lambda>hk. hk\<lparr>authenticated := False, userInfo := None,
                            token := None, refreshToken := None, loading := True\<rparr>) (clearRefreshTimer h w)"
  define w4 where "w4 = (resetGlobalState w2)\<lparr>logoutCalls := logoutCalls (resetGlobalState w2) @ [k0]\<rparr>"
  from a have h: "h < length (hooks w)" and m: "isMountedRef (hooks w ! h)" by (simp_all add: mounted_def)
  note c = clearRefreshTimer_props[OF h]
  have m1: "mounted (clearRefreshTimer h w) h" using c h m by (simp add: mounted_def)
  from logout_start_props[OF h m, of k0] have p4:
    "h < length (hooks w4)" "isMountedRef (hooks w4 ! h)" "updateTokenTimeoutRef (hooks w4 ! h) = None"
    "set (timeouts w4) \<subseteq> set (timeouts (clearRefreshTimer h w))"
    by (simp_all add: w4_def w2_def)
  have notin: "t \<notin> fst ` set (timeouts w4)" using c p4(4) a by blast
  have "t \<notin> fst ` set (timeouts (logout h signOut w))
      \<and> updateTokenTimeoutRef (hooks (logout h signOut w) ! h) = None"
  proof (cases signOut)
    case None
    have "logout h signOut w = w4"
      using h k0 m1 None by (simp add: logout_def Let_def w4_def w2_def)
    with p4 notin show ?thesis by simp
  next
    case (Some msg)
    define w5 where "w5 = updHook h (\<lambda>hk. hk\<lparr>error := Some (''Logout failed: '' @ msg),
                            loading := False\<rparr>) w4"
    have m4: "mounted w4 h" using p4 by (simp add: mounted_def)
    have eq: "logout h signOut w = resetGlobalState w5"
      using h k0 m1 m4 Some by (simp add: logout_def Let_def w4_def w2_def w5_def)
    have l5: "h < length (hooks w5)" using p4 by (simp add: w5_def)
    have p5: "updateTokenTimeoutRef (hooks w5 ! h) = None" "timeouts w5 = timeouts w4"
      using p4 by (simp_all add: w5_def updHook_nth)
    from resetGlobalState_globals[of w5] resetGlobalState_hook[OF l5] p5 notin eq
    show ?thesis by simp
  qed
  then show "t \<notin> fst ` set (timeouts (logout h signOut w))"
    "updateTokenTimeoutRef (hooks (logout h signOut w) ! h) = None" by simp_all
next
  show "timeouts (resetGlobalState w) = timeouts w"
    using resetGlobalState_globals[of w] by simp
qed

theorem refresh_timer_rearmed_unless_failed_witness:
  "mounted signed_in 0
   \<and> nextTimeout signed_in = 1
   \<and> timeouts signed_in = [(0, 0, 0, 300000)]
   \<and> keycloak (hooks signed_in ! 0) = Some 0
   \<and> updateTokenTimeoutRef (hooks signed_in ! 0) = Some 0
   \<and> timeouts (updateToken_settled 0 0 (Refreshed ''t2'' ''r2'') signed_in)
       = [(0, 0, 0, 300000), (1, 0, 0, 300000)]
   \<and> updateTokenCalls (timeoutFires 1 (updateToken_settled 0 0 (Refreshed ''t2'' ''r2'') signed_in))
       = [(0, 30), (0, 30)]
   \<and> timeouts (updateToken_settled 0 0 RefreshFailed signed_in) = [(0, 0, 0, 300000)]
   \<and> timeouts (logout 0 None signed_in) = []"
  using refresh_timer_rearmed_unless_failed[of signed_in 0 0 "Refreshed ''t2'' ''r2''" 0 None]
  by (simp add: signed_in_eval mounted_def updateToken_settled_def kc_setTimeout_def updHook_def
      storeTokens_def notifyStateChange_def callSubscriber_def handleStateChange_def
      timeoutFires_def kc_clearTimeout_def updateToken_start_def logout_def clearRefreshTimer_def
      resetGlobalState_def example_instance_def Let_def)

subsection \<open>C8: logout cleans up, whether or not the sign-out succeeds\<close>

text \<open>
  Claim C8. \<open>logout\<close> of a mounted hook that holds a Keycloak object, whether the
  provider's sign-out succeeds (\<open>signOut = None\<close>) or fails: the hook's timer reference
  is emptied and the timeout it named is no longer pending; the globals are reset
  (no singleton, no init promise, state \<open>idle\<close>, no error); the hook holds no
  credential, no user data and is not authenticated; \<open>hasRole\<close> is false for every
  role; and the provider's sign-out was called once, on the Keycloak object the hook
  held.
\<close>

theorem logout_cleans_up:
  assumes "h < length (hooks w)" and "keycloak (hooks w ! h) = Some k"
    and "isMountedRef (hooks w ! h)"
  shows "updateTokenTimeoutRef (hooks (logout h signOut w) ! h) = None
     \<and> (\<forall>t. updateTokenTimeoutRef (hooks w ! h) = Some t \<longrightarrow> t \<notin> fst ` set (timeouts (logout h signOut w)))
     \<and> keycloakSingleton (logout h signOut w) = None
     \<and> keycloakInitPromise (logout h signOut w) = None
     \<and> initializationState (logout h signOut w) = idle
     \<and> globalError (logout h signOut w) = None
     \<and> sessionCleared (hooks (logout h signOut w) ! h)
     \<and> (\<forall>r. \<not> hasRole SUPER_ROLE (logout h signOut w) (hooks (logout h signOut w) ! h) r)
     \<and> logoutCalls (logout h signOut w) = logoutCalls w @ [k]"
proof -
  define w2 where "w2 = updHook h (\<lambda>hk. hk\<lparr>authenticated := False, userInfo := None,
                            token := None, refreshToken := None, loading := True\<rparr>) (clearRefreshTimer h w)"
  define w4 where "w4 = (resetGlobalState w2)\<lparr>logoutCalls := logoutCalls (resetGlobalState w2) @ [k]\<rparr>"
  note c = clearRefreshTimer_props[OF assms(1)]
  have m1: "mounted (clearRefreshTimer h w) h" using c assms by (simp add: mounted_def)
  from logout_start_props[OF assms(1,3), of k] have p4:
    "h < length (hooks w4)" "isMountedRef (hooks w4 ! h)" "updateTokenTimeoutRef (hooks w4 ! h) = None"
    "sessionCleared (hooks w4 ! h)" "set (timeouts w4) \<subseteq> set (timeouts (clearRefreshTimer h w))"
    "logoutCalls w4 = logoutCalls w @ [k]" "keycloakSingleton w4 = None" "keycloakInitPromise w4 = None"
    "initializationState w4 = idle" "globalError w4 = None"
    by (simp_all add: w4_def w2_def)
  have notin: "\<forall>t. updateTokenTimeoutRef (hooks w ! h) = Some t \<longrightarrow> t \<notin> fst ` set (timeouts w4)"
    using c p4(5) by blast
  show ?thesis
  proof (cases signOut)
    case None
    have "logout h signOut w = w4"
      using assms m1 None by (simp add: logout_def Let_def w4_def w2_def)
    with p4 notin show ?thesis by (simp add: hasRole_unauthenticated sessionCleared_def)
  next
    case (Some msg)
    define w5 where "w5 = updHook h (\<lambda>hk. hk\<lparr>error := Some (''Logout failed: '' @ msg),
                            loading := False\<rparr>) w4"
    have m4: "mounted w4 h" using p4 by (simp add: mounted_def)
    have eq: "logout h signOut w = resetGlobalState w5"
      using assms m1 m4 Some by (simp add: logout_def Let_def w4_def w2_def w5_def)
    have l5: "h < length (hooks w5)" using p4 by (simp add: w5_def)
    have p5: "updateTokenTimeoutRef (hooks w5 ! h) = None" "sessionCleared (hooks w5 ! h)"
      "timeouts w5 = timeouts w4" "logoutCalls w5 = logoutCalls w4"
      using p4 by (simp_all add: w5_def updHook_nth sessionCleared_def)
    from resetGlobalState_globals[of w5] resetGlobalState_hook[OF l5] resetGlobalState_cleared[OF l5 p5(2)]
      p5 p4 notin eq
    show ?thesis by (simp add: hasRole_unauthenticated sessionCleared_def)
  qed
qed

theorem logout_cleans_up_witness:
  "keycloak (hooks signed_in ! 0) = Some 0
   \<and> isMountedRef (hooks signed_in ! 0)
   \<and> hasRole ''tsadmin'' signed_in (hooks signed_in ! 0) ''user''
   \<and> timeouts signed_in = [(0, 0, 0, 300000)]
   \<and> timeouts (logout 0 (Some ''network'') signed_in) = []
   \<and> keycloakSingleton (logout 0 (Some ''network'') signed_in) = None
   \<and> \<not> hasRole ''tsadmin'' (logout 0 (Some ''network'') signed_in)
          (hooks (logout 0 (Some ''network'') signed_in) ! 0) ''user''
   \<and> logoutCalls (logout 0 (Some ''network'') signed_in) = [0]"
  using logout_cleans_up[of 0 signed_in 0 "Some ''network''" "''tsadmin''"]
  by (simp add: signed_in_eval logout_def clearRefreshTimer_def kc_clearTimeout_def updHook_def
      mounted_def resetGlobalState_def notifyStateChange_def callSubscriber_def
      handleStateChange_def hasRole_def hasSuperRole_def getUserRoles_def getClientRoles_def
      instanceOf_def example_instance_def Let_def)

subsection \<open>C9: every subscriber is called before the notifying call returns\<close>

text \<open>
  Claim C9. \<open>notifyStateChange\<close> calls every subscriber registered at that moment,
  once each and in order, with the notification, whether or not any of them throws; the
  calls are made inside \<open>notifyStateChange\<close>, so they have all happened when it
  returns, and likewise when \<open>resetGlobalState\<close>, which ends with it, returns.
\<close>

theorem notifyStateChange_delivers_to_all:
  "delivered (notifyStateChange newState w) =
     delivered w @ map (\<lambda>subscriber. (cid subscriber, newState)) (stateSubscribers w)
   \<and> delivered (resetGlobalState w) =
     delivered w @ map (\<lambda>subscriber. (cid subscriber, RESET)) (stateSubscribers w)"
  by (simp add: notifyStateChange_def resetGlobalState_def forEach_subscribers_delivered)

theorem notifyStateChange_delivers_to_all_witness:
  "delivered (notifyStateChange RESET
      (signed_in\<lparr>stateSubscribers := [Callback 5 True, Callback 0 False]\<rparr>))
     = [(0, LOADING), (0, INITIALIZED 0 True), (5, RESET), (0, RESET)]
   \<and> authenticated (hooks signed_in ! 0)
   \<and> \<not> authenticated (hooks (notifyStateChange RESET
      (signed_in\<lparr>stateSubscribers := [Callback 5 True, Callback 0 False]\<rparr>)) ! 0)"
  using notifyStateChange_delivers_to_all[of RESET
      "signed_in\<lparr>stateSubscribers := [Callback 5 True, Callback 0 False]\<rparr>"]
  by (simp add: signed_in_eval notifyStateChange_def callSubscriber_def updHook_def
      handleStateChange_def Let_def)

section \<open>Properties of the Gateway Interceptor\<close>

lemma isPasswordError_example: "isPasswordError ''Current password is incorrect''"
  unfolding isPasswordError_def by (rule disjI1) simp

lemma not_isPasswordError_example: "\<not> isPasswordError ''Token expired''"
  by (simp add: isPasswordError_def toLowerCase_def toLowerChar_def)

lemma example_401_simps:
  "response_status (example_401 n m) = Some 401" "bodyMessage (example_401 n m) = m"
  "response_message (example_401 n m) = Some m"
  "config (example_401 n m) = example_request n" "customStatus (example_401 n m) = None"
  by (simp_all add: example_401_def bodyMessage_def)

lemmas gw_eval = truthy_def lookupMsg_def getCustomMessage_def
  errorStatus_def switchStatus_def handleApiError_def rejectError_def
  logoutIfSet_def onRejected_def giveUp_def onRefreshSettled_def onRetrySettled_def
  gateway_init_def example_request_def example_401_simps Let_def
  isPasswordError_example not_isPasswordError_example

lemma handleApiError_frame:
  "refreshCalls (handleApiError gem e g) = refreshCalls g"
  "gw_logoutCalls (handleApiError gem e g) = gw_logoutCalls g"
  "resent (handleApiError gem e g) = resent g"
  "isRefreshingToken (handleApiError gem e g) = isRefreshingToken g"
  "getTokenFunction (handleApiError gem e g) = getTokenFunction g"
  "logoutFunction (handleApiError gem e g) = logoutFunction g"
  "updateTokenFunction (handleApiError gem e g) = updateTokenFunction g"
  by (simp_all add: handleApiError_def Let_def split: prod.splits)

lemma onRejected_first:
  assumes "response_status e = Some 401" and "\<not> isPasswordError (bodyMessage e)"
    and "\<not> noToken (config e)" and "\<not> retry (config e)"
    and "updateTokenFunction g" and "\<not> isRefreshingToken g"
  shows "onRejected gem e g =
     (AwaitingRefresh, e\<lparr>config := (config e)\<lparr>retry := True\<rparr>\<rparr>,
      g\<lparr>isRefreshingToken := True, refreshCalls := refreshCalls g @ [30]\<rparr>)"
  using assms by (simp add: onRejected_def Let_def bodyMessage_def)

lemma onRejected_while_refreshing:
  assumes "isRefreshingToken g"
  shows "onRejected gem e g = (RejectedToCaller, e, handleApiError gem e g)"
  using assms by (simp add: onRejected_def Let_def rejectError_def)


subsection \<open>C2: two 401 responses while one refresh is in flight\<close>

text \<open>
  Claim C2, counterexample. Requests 1 and 2 are both answered with 401. The handler of
  request 1 starts the refresh and waits for it. The handler of request 2 runs while
  \<open>isRefreshingToken\<close> is set: it skips the whole 401 branch, and the request is
  rejected to its caller without waiting for the refresh and without being sent again.
  When the refresh succeeds, request 1 alone is sent again.
\<close>

theorem second_401_rejected_not_retried:
  "fst after_first_401 = AwaitingRefresh
   \<and> fst after_second_401 = RejectedToCaller
   \<and> resent (snd (snd after_second_401)) = []
   \<and> fst after_refresh = AwaitingRetry
   \<and> refreshCalls (snd (snd after_refresh)) = [30]
   \<and> resent (snd (snd after_refresh)) = [(1, ''Bearer new'')]"
  by (simp add: after_first_401_def after_second_401_def after_refresh_def gw_eval)

text \<open>
  Claim C2, as the code has it. Two requests get a 401 that is not a wrong-password
  answer, neither is credential-exempt or already a retry, a refresh function is set and
  no refresh is in flight. The first handler marks its request as a retry, sets the flag
  and calls the refresh once. The second handler, running before the refresh settles,
  triggers no refresh, no logout and no retry: its error goes through
  \<open>handleApiError\<close> and is rejected to its caller. When the refresh reports success and
  a credential is available, the first request is sent again once, with the new
  credential, and the refresh has been called exactly once.
\<close>

theorem single_refresh_first_request_retried:
  assumes "response_status e1 = Some 401" and "response_status e2 = Some 401"
    and "\<not> isPasswordError (bodyMessage e1)" and "\<not> isPasswordError (bodyMessage e2)"
    and "\<not> noToken (config e1)" and "\<not> noToken (config e2)"
    and "\<not> retry (config e1)" and "\<not> retry (config e2)"
    and "updateTokenFunction g" and "getTokenFunction g" and "\<not> isRefreshingToken g"
    and "newToken \<noteq> []"
  shows "onRejected getErrorMessage e1 g =
       (AwaitingRefresh, e1\<lparr>config := (config e1)\<lparr>retry := True\<rparr>\<rparr>,
        g\<lparr>isRefreshingToken := True, refreshCalls := refreshCalls g @ [30]\<rparr>)
     \<and> onRejected getErrorMessage e2
         (g\<lparr>isRefreshingToken := True, refreshCalls := refreshCalls g @ [30]\<rparr>) =
       (RejectedToCaller, e2,
        handleApiError getErrorMessage e2
          (g\<lparr>isRefreshingToken := True, refreshCalls := refreshCalls g @ [30]\<rparr>))
     \<and> refreshCalls (handleApiError getErrorMessage e2
           (g\<lparr>isRefreshingToken := True, refreshCalls := refreshCalls g @ [30]\<rparr>))
         = refreshCalls g @ [30]
     \<and> resent (handleApiError getErrorMessage e2
           (g\<lparr>isRefreshingToken := True, refreshCalls := refreshCalls g @ [30]\<rparr>)) = resent g
     \<and> gw_logoutCalls (handleApiError getErrorMessage e2
           (g\<lparr>isRefreshingToken := True, refreshCalls := refreshCalls g @ [30]\<rparr>)) = gw_logoutCalls g
     \<and> onRefreshSettled getErrorMessage (Some True) (Some newToken)
         (e1\<lparr>config := (config e1)\<lparr>retry := True\<rparr>\<rparr>)
         (handleApiError getErrorMessage e2
           (g\<lparr>isRefreshingToken := True, refreshCalls := refreshCalls g @ [30]\<rparr>)) =
       (AwaitingRetry,
        e1\<lparr>config := (config e1)\<lparr>retry := True, Authorization := Some (''Bearer '' @ newToken)\<rparr>\<rparr>,
        (handleApiError getErrorMessage e2
           (g\<lparr>isRefreshingToken := True, refreshCalls := refreshCalls g @ [30]\<rparr>))
          \<lparr>resent := resent g @ [(rid (config e1), ''Bearer '' @ newToken)]\<rparr>)"
proof -
  define g1 where "g1 = g\<lparr>isRefreshingToken := True, refreshCalls := refreshCalls g @ [30]\<rparr>"
  define g2 where "g2 = handleApiError getErrorMessage e2 g1"
  have a: "onRejected getErrorMessage e1 g = (AwaitingRefresh, e1\<lparr>config := (config e1)\<lparr>retry := True\<rparr>\<rparr>, g1)"
    unfolding g1_def using assms(1,3,5,7,9,11) by (rule onRejected_first)
  have b: "onRejected getErrorMessage e2 g1 = (RejectedToCaller, e2, g2)"
    unfolding g2_def by (rule onRejected_while_refreshing) (simp add: g1_def)
  have c: "refreshCalls g2 = refreshCalls g @ [30]" "resent g2 = resent g"
    "gw_logoutCalls g2 = gw_logoutCalls g" "getTokenFunction g2"
    using assms(10) by (simp_all add: g2_def handleApiError_frame g1_def)
  have e: "onRefreshSettled getErrorMessage (Some True) (Some newToken) (e1\<lparr>config := (config e1)\<lparr>retry := True\<rparr>\<rparr>) g2 =
      (AwaitingRetry, e1\<lparr>config := (config e1)\<lparr>retry := True, Authorization := Some (''Bearer '' @ newToken)\<rparr>\<rparr>,
       g2\<lparr>resent := resent g @ [(rid (config e1), ''Bearer '' @ newToken)]\<rparr>)"
    using c assms(12) by (simp add: onRefreshSettled_def truthy_def)
  show ?thesis using a b c e by (simp add: g1_def[symmetric] g2_def[symmetric])
qed

theorem single_refresh_first_request_retried_witness:
  "response_status (example_401 1 ''Token expired'') = Some 401
   \<and> \<not> isPasswordError (bodyMessage (example_401 1 ''Token expired''))
   \<and> \<not> noToken (config (example_401 2 ''Token expired''))
   \<and> \<not> retry (config (example_401 2 ''Token expired''))
   \<and> updateTokenFunction gateway_init \<and> \<not> isRefreshingToken gateway_init
   \<and> fst (onRejected (\<lambda>k. k) (example_401 1 ''Token expired'') gateway_init) = AwaitingRefresh
   \<and> fst (onRejected (\<lambda>k. k) (example_401 2 ''Token expired'')
        (gateway_init\<lparr>isRefreshingToken := True, refreshCalls := refreshCalls gateway_init @ [30]\<rparr>))
       = RejectedToCaller
   \<and> refreshCalls (handleApiError (\<lambda>k. k) (example_401 2 ''Token expired'')
           (gateway_init\<lparr>isRefreshingToken := True, refreshCalls := refreshCalls gateway_init @ [30]\<rparr>)) = [30]"
  using single_refresh_first_request_retried[of "example_401 1 ''Token expired''"
      "example_401 2 ''Token expired''" gateway_init "''new''" "\<lambda>k. k"]
  by (simp add: gw_eval)

subsection \<open>C10: a wrong-password 401\<close>

text \<open>
  Claim C10, counterexample. A 401 whose message says the current password is incorrect
  arrives while the refresh of another request is in flight: the guard of the 401 branch
  fails, the error is not tagged \<open>incorrect\<close>, and \<open>handleApiError\<close> treats it as a
  plain 401, with the message of the \<open>401\<close> case.
\<close>

theorem password_401_untagged_while_refreshing:
  "isPasswordError (bodyMessage (example_401 2 ''Current password is incorrect''))
   \<and> isRefreshingToken (snd (snd after_first_401))
   \<and> customStatus (fst (snd password_401_while_refreshing)) = None
   \<and> handled (snd (snd password_401_while_refreshing)) = [(2, Code 401, Some (''error'', ''401''))]"
  by (simp add: after_first_401_def password_401_while_refreshing_def gw_eval)

text \<open>
  Claim C10, as the code has it. A 401 whose message indicates an incorrect password
  never triggers a refresh, a logout or a retry, and is rejected to its caller. When the
  request is not credential-exempt and no refresh is in flight, the error is tagged
  \<open>incorrect\<close> and \<open>handleApiError\<close> takes the \<open>incorrect\<close> case, whose message is
  looked up under \<open>incorrect\<close>. When the request is credential-exempt or a refresh is
  in flight, the error is left untagged and handled as it came.
\<close>

theorem password_401_no_refresh_no_logout:
  assumes "response_status err = Some 401" and "isPasswordError (bodyMessage err)"
  shows "fst (onRejected getErrorMessage err g) = RejectedToCaller
     \<and> refreshCalls (snd (snd (onRejected getErrorMessage err g))) = refreshCalls g
     \<and> gw_logoutCalls (snd (snd (onRejected getErrorMessage err g))) = gw_logoutCalls g
     \<and> resent (snd (snd (onRejected getErrorMessage err g))) = resent g
     \<and> isRefreshingToken (snd (snd (onRejected getErrorMessage err g))) = isRefreshingToken g
     \<and> (\<not> noToken (config err) \<and> \<not> isRefreshingToken g \<longrightarrow>
          customStatus (fst (snd (onRejected getErrorMessage err g))) = Some ''incorrect''
          \<and> handled (snd (snd (onRejected getErrorMessage err g))) = handled g @
              [(rid (config err), Key ''incorrect'',
                if showErrorToast (config err)
                then Some (''error'', getCustomMessage getErrorMessage
                             (err\<lparr>customStatus := Some ''incorrect''\<rparr>) (Key ''incorrect'') ''incorrect'')
                else None)])
     \<and> (noToken (config err) \<or> isRefreshingToken g \<longrightarrow>
          fst (snd (onRejected getErrorMessage err g)) = err
          \<and> snd (snd (onRejected getErrorMessage err g)) = handleApiError getErrorMessage err g)"
  using assms
  by (auto simp: onRejected_def Let_def rejectError_def bodyMessage_def handleApiError_frame
      handleApiError_def errorStatus_def truthy_def switchStatus_def)

theorem password_401_no_refresh_no_logout_witness:
  "response_status (example_401 2 ''Current password is incorrect'') = Some 401
   \<and> isPasswordError (bodyMessage (example_401 2 ''Current password is incorrect''))
   \<and> \<not> noToken (config (example_401 2 ''Current password is incorrect''))
   \<and> \<not> isRefreshingToken gateway_init
   \<and> isRefreshingToken (snd (snd after_first_401))
   \<and> customStatus (fst (snd (onRejected (\<lambda>k. k) (example_401 2 ''Current password is incorrect'') gateway_init)))
       = Some ''incorrect''
   \<and> handled (snd (snd (onRejected (\<lambda>k. k) (example_401 2 ''Current password is incorrect'') gateway_init)))
       = [(2, Key ''incorrect'', Some (''error'', ''incorrect''))]
   \<and> refreshCalls (snd (snd (onRejected (\<lambda>k. k) (example_401 2 ''Current password is incorrect'') gateway_init))) = []
   \<and> refreshCalls (snd (snd (onRejected (\<lambda>k. k) (example_401 2 ''Current password is incorrect'')
        (snd (snd after_first_401))))) = [30]"
  using password_401_no_refresh_no_logout[of "example_401 2 ''Current password is incorrect''" "\<lambda>k. k" gateway_init]
    password_401_no_refresh_no_logout[of "example_401 2 ''Current password is incorrect''" "\<lambda>k. k"
      "snd (snd after_first_401)"]
  by (simp add: after_first_401_def gw_eval)

end
